theory Spec2Isabelle
  imports Main "HOL-Library.Word"
begin

section \<open>The configuration store of gate4ai/mcp\<close>

text \<open>
  The repository holds two versions of the YAML-backed configuration store
  \<^verbatim>\<open>YamlConfig\<close>: \<^verbatim>\<open>shared/config/yaml.go\<close> (SSL and A2A fields, no
  file watcher) and a second file of the same package (a file watcher with a
  debounce, no SSL or A2A fields). Both are embedded here. Names of the first
  version are kept as they are; a name of the second version that clashes with
  one of the first carries the suffix \<open>_w\<close> (the watcher variant).

  Conventions of the embedding:
  \<^item> a Go \<^verbatim>\<open>string\<close> is a byte sequence: \<^typ>\<open>string\<close>;
  \<^item> a Go map is a partial function; a map that the code walks with
    \<^verbatim>\<open>range\<close> is the list of its entries in the order the walk visits them
    (Go leaves that order open, so a theorem holds for every order);
  \<^item> a method returning \<^verbatim>\<open>(T, error)\<close> returns a pair whose second
    component is \<open>None\<close> for \<^verbatim>\<open>nil\<close>; a method that mutates its receiver
    returns the receiver after the call;
  \<^item> the operating system and the YAML deserialiser are parameters:
    \<open>readFile\<close> is \<^verbatim>\<open>os.ReadFile\<close> and \<open>unmarshal\<close> is
    \<^verbatim>\<open>yaml.Unmarshal\<close> into a fresh local struct;
  \<^item> logging has no effect on the store and is left out, and so is the
    read-write mutex: the functions below are the bodies that run while the
    lock is held.
\<close>

datatype error =
    ErrNotFound
  | OsError string
  | YamlError string
  | Wrapped string error

text \<open>
  Modelled from the spec: the enumeration \<^verbatim>\<open>AuthorizationType\<close> and the struct
  \<^verbatim>\<open>Backend\<close> are declared in a file of the package that is not among the
  sources. The spec calls the three policies \<^verbatim>\<open>RequireAuthEverywhere\<close>,
  \<^verbatim>\<open>RequireAuthForMarkedMethods\<close> and \<^verbatim>\<open>NoAuthRequired\<close>; the code calls them
  \<open>AuthorizedUsersOnly\<close>, \<open>NotAuthorizedToMarkedMethods\<close> and
  \<open>NotAuthorizedEverywhere\<close>. A backend is an upstream URL and a bearer token.
\<close>

datatype AuthorizationType =
    AuthorizedUsersOnly
  | NotAuthorizedToMarkedMethods
  | NotAuthorizedEverywhere

record Backend =
  URL :: string
  Bearer :: string

subsection \<open>The parsed YAML document\<close>

record yamlUser =
  Keys :: "string list"
  Subscribes :: "string list"

record yamlBackend =
  url :: string
  bearer :: string

record yamlSSL =
  Enabled :: bool
  Mode :: string
  CertFile :: string
  KeyFile :: string
  AcmeDomains :: "string list"
  AcmeEmail :: string
  AcmeCacheDir :: string

record 'auth yamlA2A =
  agent_name :: string
  agent_description :: "string option"
  agent_version :: string
  agent_documentation_url :: "string option"
  agent_provider_organization :: "string option"
  agent_provider_url :: "string option"
  default_input_modes :: "string list"
  default_output_modes :: "string list"
  agent_authentication :: "'auth option"

record 'auth yamlServer =
  Address :: string
  Name :: string
  Version :: string
  LogLevel :: string
  DiscoveringHandlerPath :: string
  FrontendAddress :: string
  Authorization :: string
  SSL :: yamlSSL
  A2A :: "'auth yamlA2A option"

record 'auth yamlConfig =
  Server :: "'auth yamlServer"
  Users :: "(string \<times> yamlUser) list"
  Backends :: "(string \<times> yamlBackend) list"

subsection \<open>The store of shared/config/yaml.go\<close>

record 'auth YamlConfig =
  configPath :: string
  serverAddress :: string
  serverName :: string
  serverVersion :: string
  logLevel :: string
  DiscoveringHandlerPathValue :: string
  frontendAddressValue :: string
  authorizationType :: AuthorizationType
  userKeyHashes :: "string \<rightharpoonup> string"
  userParams :: "string \<rightharpoonup> (string \<rightharpoonup> string)"
  userSubscribes :: "string \<rightharpoonup> string list"
  backends :: "string \<rightharpoonup> Backend"
  sslEnabled :: bool
  sslMode :: string
  sslCertFile :: string
  sslKeyFile :: string
  sslAcmeDomains :: "string list"
  sslAcmeEmail :: string
  sslAcmeCacheDir :: string
  a2aAgentNameValue :: string
  a2aAgentDescriptionValue :: "string option"
  a2aProviderOrgValue :: "string option"
  a2aProviderURLValue :: "string option"
  a2aAgentVersionValue :: string
  a2aDocumentationURLValue :: "string option"
  a2aDefaultInputModesValue :: "string list"
  a2aDefaultOutputModesValue :: "string list"
  a2aAuthenticationValue :: "'auth option"

text \<open>
  \<^verbatim>\<open>strings.ToLower\<close>: a string of ASCII bytes only is lower-cased byte by
  byte; any other string goes through \<^verbatim>\<open>Map(unicode.ToLower, s)\<close>, whose
  Unicode tables are the parameter \<open>unicodeLower\<close>.
\<close>

definition isUpperASCII :: "char \<Rightarrow> bool" where
  "isUpperASCII c = (65 \<le> (of_char c :: nat) \<and> (of_char c :: nat) \<le> 90)"

definition lowerASCII :: "char \<Rightarrow> char" where
  "lowerASCII c = (if isUpperASCII c then char_of ((of_char c :: nat) + 32) else c)"

definition isASCII :: "string \<Rightarrow> bool" where
  "isASCII s = list_all (\<lambda>c. (of_char c :: nat) < 128) s"

definition ToLower :: "(string \<Rightarrow> string) \<Rightarrow> string \<Rightarrow> string" where
  "ToLower unicodeLower s =
     (if isASCII s then
        (if list_ex isUpperASCII s then map lowerASCII s else s)
      else unicodeLower s)"

text \<open>The \<^verbatim>\<open>switch\<close> of \<^verbatim>\<open>Update\<close> on the authorization string.\<close>

definition authorizationSwitch :: "string \<Rightarrow> AuthorizationType" where
  "authorizationSwitch s =
     (if s = ''users_only'' then AuthorizedUsersOnly
      else if s = ''marked_methods'' then NotAuthorizedToMarkedMethods
      else if s = ''none'' then NotAuthorizedEverywhere
      else AuthorizedUsersOnly)"

text \<open>
  The users loop of \<^verbatim>\<open>Update\<close>: every key hash of a user is bound to the
  user, a later binding replacing an earlier one; a user with at least one
  subscription gets a copy of the list.
\<close>

fun processUsers ::
  "(string \<times> yamlUser) list \<Rightarrow> (string \<rightharpoonup> string) \<times> (string \<rightharpoonup> string list)
     \<Rightarrow> (string \<rightharpoonup> string) \<times> (string \<rightharpoonup> string list)" where
  "processUsers [] acc = acc"
| "processUsers ((userID, user) # rest) (newUserKeyHashes, newUserSubscribes) =
     processUsers rest
       (fold (\<lambda>keyHash m. m(keyHash \<mapsto> userID)) (Keys user) newUserKeyHashes,
        if length (Subscribes user) > 0
        then newUserSubscribes(userID \<mapsto> Subscribes user)
        else newUserSubscribes)"

fun processBackends ::
  "(string \<times> yamlBackend) list \<Rightarrow> (string \<rightharpoonup> Backend) \<Rightarrow> (string \<rightharpoonup> Backend)" where
  "processBackends [] newBackends = newBackends"
| "processBackends ((backendID, backend) # rest) newBackends =
     processBackends rest
       (newBackends(backendID \<mapsto> \<lparr>URL = url backend, Bearer = bearer backend\<rparr>))"

definition applyServer :: "(string \<Rightarrow> string) \<Rightarrow> 'auth yamlConfig \<Rightarrow> 'auth YamlConfig \<Rightarrow> 'auth YamlConfig" where
  "applyServer unicodeLower yamlCfg c =
     c\<lparr>serverAddress := Address (Server yamlCfg),
       serverName := Name (Server yamlCfg),
       serverVersion := Version (Server yamlCfg),
       logLevel := LogLevel (Server yamlCfg),
       DiscoveringHandlerPathValue := DiscoveringHandlerPath (Server yamlCfg),
       frontendAddressValue := FrontendAddress (Server yamlCfg),
       authorizationType :=
         authorizationSwitch (ToLower unicodeLower (Authorization (Server yamlCfg)))\<rparr>"

definition applySSL :: "(string \<Rightarrow> string) \<Rightarrow> 'auth yamlConfig \<Rightarrow> 'auth YamlConfig \<Rightarrow> 'auth YamlConfig" where
  "applySSL unicodeLower yamlCfg c =
     c\<lparr>sslEnabled := Enabled (SSL (Server yamlCfg)),
       sslMode :=
         (if ToLower unicodeLower (Mode (SSL (Server yamlCfg))) \<noteq> ''acme''
          then ''manual''
          else ToLower unicodeLower (Mode (SSL (Server yamlCfg)))),
       sslCertFile := CertFile (SSL (Server yamlCfg)),
       sslKeyFile := KeyFile (SSL (Server yamlCfg)),
       sslAcmeDomains := AcmeDomains (SSL (Server yamlCfg)),
       sslAcmeEmail := AcmeEmail (SSL (Server yamlCfg)),
       sslAcmeCacheDir :=
         (if AcmeCacheDir (SSL (Server yamlCfg)) = ''''
          then ''./.autocert-cache''
          else AcmeCacheDir (SSL (Server yamlCfg)))\<rparr>"

definition applyA2A :: "'auth yamlConfig \<Rightarrow> 'auth YamlConfig \<Rightarrow> 'auth YamlConfig" where
  "applyA2A yamlCfg c =
     (case A2A (Server yamlCfg) of
        Some a2aCfg \<Rightarrow>
          c\<lparr>a2aAgentNameValue := agent_name a2aCfg,
            a2aAgentDescriptionValue := agent_description a2aCfg,
            a2aAgentVersionValue := agent_version a2aCfg,
            a2aDocumentationURLValue := agent_documentation_url a2aCfg,
            a2aProviderOrgValue := agent_provider_organization a2aCfg,
            a2aProviderURLValue := agent_provider_url a2aCfg,
            a2aDefaultInputModesValue := default_input_modes a2aCfg,
            a2aDefaultOutputModesValue := default_output_modes a2aCfg,
            a2aAuthenticationValue := agent_authentication a2aCfg\<rparr>
      | None \<Rightarrow>
          c\<lparr>a2aAgentNameValue := '''',
            a2aAgentDescriptionValue := None,
            a2aAgentVersionValue := '''',
            a2aDocumentationURLValue := None,
            a2aProviderOrgValue := None,
            a2aProviderURLValue := None,
            a2aDefaultInputModesValue := [],
            a2aDefaultOutputModesValue := [],
            a2aAuthenticationValue := None\<rparr>)"

definition applyUsersBackends :: "'auth yamlConfig \<Rightarrow> 'auth YamlConfig \<Rightarrow> 'auth YamlConfig" where
  "applyUsersBackends yamlCfg c =
     (let (newUserKeyHashes, newUserSubscribes) =
            processUsers (Users yamlCfg) (Map.empty, Map.empty)
      in c\<lparr>userKeyHashes := newUserKeyHashes,
           userSubscribes := newUserSubscribes,
           backends := processBackends (Backends yamlCfg) Map.empty\<rparr>)"

text \<open>
  \<^verbatim>\<open>Update\<close> (yaml.go, lines 128-227). The four blocks of assignments after
  the two early returns are the four functions above, in the order of the
  source.
\<close>

definition Update ::
  "(string \<Rightarrow> error + string) \<Rightarrow> (string \<Rightarrow> error + 'auth yamlConfig) \<Rightarrow> (string \<Rightarrow> string)
     \<Rightarrow> 'auth YamlConfig \<Rightarrow> error option \<times> 'auth YamlConfig" where
  "Update readFile unmarshal unicodeLower c =
     (case readFile (configPath c) of
        Inl err \<Rightarrow> (Some err, c)
      | Inr data \<Rightarrow>
          (case unmarshal data of
             Inl err \<Rightarrow> (Some err, c)
           | Inr yamlCfg \<Rightarrow>
               (None,
                applyUsersBackends yamlCfg
                  (applyA2A yamlCfg
                    (applySSL unicodeLower yamlCfg
                      (applyServer unicodeLower yamlCfg c))))))"

text \<open>
  \<^verbatim>\<open>GetUserIDByKeyHash\<close> (yaml.go, lines 268-279): a lookup in the
  in-memory index.
\<close>

definition GetUserIDByKeyHash :: "'auth YamlConfig \<Rightarrow> string \<Rightarrow> string \<times> error option" where
  "GetUserIDByKeyHash c keyHash =
     (if keyHash = '''' then ('''', None)
      else (case userKeyHashes c keyHash of
              None \<Rightarrow> ('''', Some ErrNotFound)
            | Some userID \<Rightarrow> (userID, None)))"

text \<open>
  \<^verbatim>\<open>GetA2ACardBaseInfo\<close> (yaml.go, lines 365-404). The structs
  \<^verbatim>\<open>A2ACardBaseInfo\<close> and \<^verbatim>\<open>AgentProvider\<close> are declared outside the sources;
  their fields are the ones the function assigns. The helper
  \<^verbatim>\<open>derefString\<close> is outside the sources too and is a parameter.
\<close>

record AgentProvider =
  Organization :: string
  ProviderURL :: "string option"

record 'auth A2ACardBaseInfo =
  card_Name :: string
  card_Description :: "string option"
  card_AgentURL :: string
  card_Version :: string
  card_DocumentationURL :: "string option"
  card_Provider :: "AgentProvider option"
  card_DefaultInputModes :: "string list"
  card_DefaultOutputModes :: "string list"
  card_Authentication :: "'auth option"

definition GetA2ACardBaseInfo ::
  "(string option \<Rightarrow> string) \<Rightarrow> 'auth YamlConfig \<Rightarrow> string \<Rightarrow> 'auth A2ACardBaseInfo \<times> error option" where
  "GetA2ACardBaseInfo derefString c agentURL =
     (let info = \<lparr>card_Name = a2aAgentNameValue c,
                  card_Description = a2aAgentDescriptionValue c,
                  card_AgentURL = agentURL,
                  card_Version = a2aAgentVersionValue c,
                  card_DocumentationURL = a2aDocumentationURLValue c,
                  card_Provider = None,
                  card_DefaultInputModes = a2aDefaultInputModesValue c,
                  card_DefaultOutputModes = a2aDefaultOutputModesValue c,
                  card_Authentication = a2aAuthenticationValue c\<rparr>;
          info = (if a2aProviderOrgValue c \<noteq> None \<or> a2aProviderURLValue c \<noteq> None
                  then info\<lparr>card_Provider :=
                         Some \<lparr>Organization = derefString (a2aProviderOrgValue c),
                               ProviderURL = a2aProviderURLValue c\<rparr>\<rparr>
                  else info);
          info = (if card_Name info = '''' then info\<lparr>card_Name := ''Gate4AI A2A Agent''\<rparr> else info);
          info = (if card_Version info = '''' then info\<lparr>card_Version := ''1.0.0''\<rparr> else info);
          info = (if length (card_DefaultInputModes info) = 0
                  then info\<lparr>card_DefaultInputModes := [''text'']\<rparr> else info);
          info = (if length (card_DefaultOutputModes info) = 0
                  then info\<lparr>card_DefaultOutputModes := [''text'']\<rparr> else info)
      in (info, None))"

subsection \<open>The store of the watcher variant\<close>

text \<open>
  A \<^verbatim>\<open>time.Time\<close> is a number of nanoseconds on one time line. A
  \<^verbatim>\<open>time.Duration\<close> is a signed 64-bit number of nanoseconds, and
  \<^verbatim>\<open>Time.Sub\<close> saturates at its two ends.
\<close>

type_synonym Time = int

definition maxDuration :: int where
  "maxDuration = 2 ^ 63 - 1"

definition minDuration :: int where
  "minDuration = - (2 ^ 63)"

definition Sub :: "Time \<Rightarrow> Time \<Rightarrow> int" where
  "Sub t u =
     (if t - u > maxDuration then maxDuration
      else if t - u < minDuration then minDuration
      else t - u)"

record yamlServer_w =
  Address_w :: string
  Name_w :: string
  Version_w :: string
  LogLevel_w :: string
  InfoHandler :: string
  FrontendAddress_w :: string
  Authorization_w :: string

record yamlConfig_w =
  Server_w :: yamlServer_w
  Users_w :: "(string \<times> yamlUser) list"
  Backends_w :: "(string \<times> yamlBackend) list"

record YamlConfig_w =
  configPath_w :: string
  serverAddress_w :: string
  serverName_w :: string
  serverVersion_w :: string
  logLevel_w :: string
  infoHandlerValue :: string
  frontendAddressValue_w :: string
  authorizationType_w :: AuthorizationType
  userAuthKeys :: "string \<rightharpoonup> string"
  userParams_w :: "string \<rightharpoonup> (string \<rightharpoonup> string)"
  userSubscribes_w :: "string \<rightharpoonup> string list"
  backends_w :: "string \<rightharpoonup> Backend"
  lastModified :: Time
  isWatching :: bool

text \<open>
  \<^verbatim>\<open>Update\<close> of the watcher variant (lines 230-308). The switch compares
  the authorization string as it is. The local set \<^verbatim>\<open>affectedUsers\<close> is
  filled and never read; it has no part in the result and is left out.
\<close>

definition Update_w ::
  "(string \<Rightarrow> error + string) \<Rightarrow> (string \<Rightarrow> error + yamlConfig_w)
     \<Rightarrow> YamlConfig_w \<Rightarrow> error option \<times> YamlConfig_w" where
  "Update_w readFile unmarshal c =
     (case readFile (configPath_w c) of
        Inl err \<Rightarrow> (Some err, c)
      | Inr data \<Rightarrow>
          (case unmarshal data of
             Inl err \<Rightarrow> (Some err, c)
           | Inr yamlCfg \<Rightarrow>
               (let (newUserAuthKeys, newUserSubscribes) =
                      processUsers (Users_w yamlCfg) (Map.empty, Map.empty)
                in (None,
                    c\<lparr>serverAddress_w := Address_w (Server_w yamlCfg),
                      serverName_w := Name_w (Server_w yamlCfg),
                      serverVersion_w := Version_w (Server_w yamlCfg),
                      logLevel_w := LogLevel_w (Server_w yamlCfg),
                      infoHandlerValue := InfoHandler (Server_w yamlCfg),
                      frontendAddressValue_w := FrontendAddress_w (Server_w yamlCfg),
                      authorizationType_w := authorizationSwitch (Authorization_w (Server_w yamlCfg)),
                      userAuthKeys := newUserAuthKeys,
                      userSubscribes_w := newUserSubscribes,
                      backends_w := processBackends (Backends_w yamlCfg) Map.empty\<rparr>))))"

text \<open>
  \<^verbatim>\<open>GetUserIDByKeyHash\<close> of the watcher variant (lines 330-355): it reads
  and parses the file again and walks the users of the file.
\<close>

fun findKeyHash :: "(string \<times> yamlUser) list \<Rightarrow> string \<Rightarrow> string option" where
  "findKeyHash [] keyHash = None"
| "findKeyHash ((userID, user) # rest) keyHash =
     (if list_ex (\<lambda>hash. hash = keyHash) (Keys user) then Some userID
      else findKeyHash rest keyHash)"

definition GetUserIDByKeyHash_w ::
  "(string \<Rightarrow> error + string) \<Rightarrow> (string \<Rightarrow> error + yamlConfig_w)
     \<Rightarrow> YamlConfig_w \<Rightarrow> string \<Rightarrow> string \<times> error option" where
  "GetUserIDByKeyHash_w readFile unmarshal c keyHash =
     (case readFile (configPath_w c) of
        Inl err \<Rightarrow> ('''', Some (Wrapped ''failed to read config file'' err))
      | Inr data \<Rightarrow>
          (case unmarshal data of
             Inl err \<Rightarrow> ('''', Some (Wrapped ''failed to parse YAML'' err))
           | Inr config \<Rightarrow>
               (case findKeyHash (Users_w config) keyHash of
                  Some userID \<Rightarrow> (userID, None)
                | None \<Rightarrow> ('''', None))))"

subsection \<open>The file watcher\<close>

text \<open>
  \<^verbatim>\<open>fsnotify\<close> is a library: an event carries a set of operations, and
  \<^verbatim>\<open>event.Has(op)\<close> tests membership.
\<close>

datatype Op = Create | Write | Remove | Rename | Chmod

record Event =
  EventName :: string
  EventOp :: "Op set"

definition Has :: "Event \<Rightarrow> Op \<Rightarrow> bool" where
  "Has event op = (op \<in> EventOp event)"

text \<open>
  \<^verbatim>\<open>StartWatcher\<close> (lines 126-207), the part that runs before the
  goroutine: \<open>newWatcher\<close> is the error of \<^verbatim>\<open>fsnotify.NewWatcher\<close> and
  \<open>stat\<close> the modification time \<^verbatim>\<open>os.Stat\<close> reports. The Boolean says
  whether the goroutine was started.
\<close>

definition StartWatcher ::
  "error option \<Rightarrow> error + Time \<Rightarrow> YamlConfig_w \<Rightarrow> error option \<times> YamlConfig_w \<times> bool" where
  "StartWatcher newWatcher stat c =
     (if isWatching c then (None, c, False)
      else (case newWatcher of
              Some err \<Rightarrow> (Some err, c, False)
            | None \<Rightarrow>
                (None,
                 (case stat of
                    Inr modTime \<Rightarrow> c\<lparr>isWatching := True, lastModified := modTime\<rparr>
                  | Inl _ \<Rightarrow> c\<lparr>isWatching := True\<rparr>),
                 True)))"

text \<open>
  One turn of the goroutine's \<^verbatim>\<open>select\<close>: which channel delivered, and
  for an event the reading of \<^verbatim>\<open>time.Now()\<close> and the file system that
  \<^verbatim>\<open>Update\<close> would read at that moment.
\<close>

datatype selected =
    EventsRecv Event Time "string \<Rightarrow> error + string"
  | EventsClosed
  | ErrorsRecv error
  | ErrorsClosed
  | WatcherDone

text \<open>
  What the handler does to the store, in program order: the write of
  \<^verbatim>\<open>c.lastModified\<close> under the watcher's mutex, and the call of
  \<^verbatim>\<open>c.Update()\<close> with the error it returned.
\<close>

datatype effect = StoreLastModified Time | RunUpdate "error option"

definition handleEvent ::
  "64 word \<Rightarrow> (string \<Rightarrow> error + yamlConfig_w) \<Rightarrow> Event \<Rightarrow> Time \<Rightarrow> (string \<Rightarrow> error + string)
     \<Rightarrow> YamlConfig_w \<Rightarrow> YamlConfig_w \<times> effect list" where
  "handleEvent minInterval unmarshal event currentTime readFile c =
     (if Has event Write \<or> Has event Create then
        (let timeSinceLastModification = Sub currentTime (lastModified c);
             shouldReload = (timeSinceLastModification > sint minInterval);
             c1 = (if shouldReload then c\<lparr>lastModified := currentTime\<rparr> else c)
         in if shouldReload then
              (let (err, c2) = Update_w readFile unmarshal c1
               in (c2, [StoreLastModified currentTime, RunUpdate err]))
            else (c1, []))
      else (c, []))"

fun watchLoop ::
  "64 word \<Rightarrow> (string \<Rightarrow> error + yamlConfig_w) \<Rightarrow> selected list
     \<Rightarrow> YamlConfig_w \<Rightarrow> YamlConfig_w \<times> effect list" where
  "watchLoop minInterval unmarshal [] c = (c, [])"
| "watchLoop minInterval unmarshal (EventsRecv event currentTime readFile # rest) c =
     (let (c1, es) = handleEvent minInterval unmarshal event currentTime readFile c;
          (c2, es') = watchLoop minInterval unmarshal rest c1
      in (c2, es @ es'))"
| "watchLoop minInterval unmarshal (EventsClosed # rest) c = (c, [])"
| "watchLoop minInterval unmarshal (ErrorsRecv err # rest) c =
     watchLoop minInterval unmarshal rest c"
| "watchLoop minInterval unmarshal (ErrorsClosed # rest) c = (c, [])"
| "watchLoop minInterval unmarshal (WatcherDone # rest) c = (c, [])"

text \<open>
  The goroutine: \<open>added\<close> is the error of \<^verbatim>\<open>watcher.Add\<close>; when the file
  cannot be added the goroutine returns at once.
\<close>

definition watcherGoroutine ::
  "64 word \<Rightarrow> (string \<Rightarrow> error + yamlConfig_w) \<Rightarrow> error option \<Rightarrow> selected list
     \<Rightarrow> YamlConfig_w \<Rightarrow> YamlConfig_w \<times> effect list" where
  "watcherGoroutine minInterval unmarshal added turns c =
     (case added of
        Some err \<Rightarrow> (c, [])
      | None \<Rightarrow> watchLoop minInterval unmarshal turns c)"

text \<open>The times at which the watcher scheduled a reload, oldest first.\<close>

fun reloadTimes :: "effect list \<Rightarrow> Time list" where
  "reloadTimes [] = []"
| "reloadTimes (StoreLastModified t # es) = t # reloadTimes es"
| "reloadTimes (RunUpdate err # es) = reloadTimes es"

text \<open>
  \<open>spaced m t0 ts\<close>: each time of \<open>ts\<close> is more than \<open>m\<close> after the one before
  it, the first one more than \<open>m\<close> after \<open>t0\<close>.
\<close>

fun spaced :: "int \<Rightarrow> Time \<Rightarrow> Time list \<Rightarrow> bool" where
  "spaced m t0 [] = True"
| "spaced m t0 (t # ts) = (m < Sub t t0 \<and> spaced m t ts)"

text \<open>
  \<open>inOrder es\<close>: the effects are pairs, a write of the timestamp and then
  the call of \<^verbatim>\<open>Update\<close>.
\<close>

fun inOrder :: "effect list \<Rightarrow> bool" where
  "inOrder [] = True"
| "inOrder (StoreLastModified t # RunUpdate err # es) = inOrder es"
| "inOrder es = False"

subsection \<open>Construction\<close>

text \<open>
  The struct literals of the two \<^verbatim>\<open>NewYamlConfigWithOptions\<close>; a field the
  literal does not name has Go's zero value. The zero \<^verbatim>\<open>time.Time\<close> is
  the first instant of year 1, in nanoseconds before the Unix epoch.
\<close>

definition newConfig :: "string \<Rightarrow> 'auth YamlConfig" where
  "newConfig path =
     \<lparr>configPath = path, serverAddress = '''', serverName = '''', serverVersion = '''',
      logLevel = '''', DiscoveringHandlerPathValue = '''', frontendAddressValue = '''',
      authorizationType = AuthorizedUsersOnly,
      userKeyHashes = Map.empty, userParams = Map.empty, userSubscribes = Map.empty,
      backends = Map.empty,
      sslEnabled = False, sslMode = ''manual'', sslCertFile = '''', sslKeyFile = '''',
      sslAcmeDomains = [], sslAcmeEmail = '''', sslAcmeCacheDir = ''./.autocert-cache'',
      a2aAgentNameValue = '''', a2aAgentDescriptionValue = None, a2aProviderOrgValue = None,
      a2aProviderURLValue = None, a2aAgentVersionValue = '''', a2aDocumentationURLValue = None,
      a2aDefaultInputModesValue = [], a2aDefaultOutputModesValue = [],
      a2aAuthenticationValue = None\<rparr>"

definition NewYamlConfigWithOptions ::
  "(string \<Rightarrow> error + string) \<Rightarrow> (string \<Rightarrow> error + 'auth yamlConfig) \<Rightarrow> (string \<Rightarrow> string)
     \<Rightarrow> string \<Rightarrow> error + 'auth YamlConfig" where
  "NewYamlConfigWithOptions readFile unmarshal unicodeLower path =
     (case Update readFile unmarshal unicodeLower (newConfig path) of
        (Some err, _) \<Rightarrow> Inl err
      | (None, config) \<Rightarrow> Inr config)"

definition zeroTime :: Time where
  "zeroTime = - 62135596800000000000"

definition newConfig_w :: "string \<Rightarrow> YamlConfig_w" where
  "newConfig_w path =
     \<lparr>configPath_w = path, serverAddress_w = '''', serverName_w = '''', serverVersion_w = '''',
      logLevel_w = '''', infoHandlerValue = '''', frontendAddressValue_w = '''',
      authorizationType_w = AuthorizedUsersOnly,
      userAuthKeys = Map.empty, userParams_w = Map.empty, userSubscribes_w = Map.empty,
      backends_w = Map.empty, lastModified = zeroTime, isWatching = False\<rparr>"

text \<open>
  The backing file is unreadable (\<^verbatim>\<open>os.ReadFile\<close> returns an error) or does
  not parse (\<^verbatim>\<open>yaml.Unmarshal\<close> returns an error).
\<close>

definition unreadableOrMalformed ::
  "(string \<Rightarrow> error + string) \<Rightarrow> (string \<Rightarrow> error + 'y) \<Rightarrow> string \<Rightarrow> bool" where
  "unreadableOrMalformed readFile unmarshal path =
     (case readFile path of Inl err \<Rightarrow> True | Inr data \<Rightarrow> isl (unmarshal data))"

section \<open>References handed out by the accessors\<close>

text \<open>
  Whether a caller can reach the store through a value an accessor returned
  depends on what the value shares with the store. Here the reference-typed
  fields of the store hold addresses into a heap: a \<^verbatim>\<open>*Backend\<close> is the
  address of a \<^verbatim>\<open>Backend\<close>, a \<^verbatim>\<open>[]string\<close> the address of its backing array
  (\<open>None\<close> is the \<^verbatim>\<open>nil\<close> slice), a \<^verbatim>\<open>map[string]string\<close> the address of
  the map object. Allocation takes the next unused address.
\<close>

type_synonym addr = nat

record heap =
  backendCells :: "addr \<rightharpoonup> Backend"
  sliceCells :: "addr \<rightharpoonup> string list"
  mapCells :: "addr \<rightharpoonup> (string \<rightharpoonup> string)"
  nextAddr :: addr

record refStore =
  backendsRef :: "string \<rightharpoonup> addr"
  userSubscribesRef :: "string \<rightharpoonup> addr"
  userParamsRef :: "string \<rightharpoonup> addr"
  sslAcmeDomainsRef :: "addr option"

definition newBackend :: "Backend \<Rightarrow> heap \<Rightarrow> addr \<times> heap" where
  "newBackend b h =
     (nextAddr h,
      h\<lparr>backendCells := (backendCells h)(nextAddr h \<mapsto> b), nextAddr := Suc (nextAddr h)\<rparr>)"

definition newSlice :: "string list \<Rightarrow> heap \<Rightarrow> addr \<times> heap" where
  "newSlice xs h =
     (nextAddr h,
      h\<lparr>sliceCells := (sliceCells h)(nextAddr h \<mapsto> xs), nextAddr := Suc (nextAddr h)\<rparr>)"

definition newMap :: "(string \<rightharpoonup> string) \<Rightarrow> heap \<Rightarrow> addr \<times> heap" where
  "newMap m h =
     (nextAddr h,
      h\<lparr>mapCells := (mapCells h)(nextAddr h \<mapsto> m), nextAddr := Suc (nextAddr h)\<rparr>)"

text \<open>The elements of a slice; the \<^verbatim>\<open>nil\<close> slice has none.\<close>

definition elems :: "heap \<Rightarrow> addr option \<Rightarrow> string list" where
  "elems h s =
     (case s of
        None \<Rightarrow> []
      | Some p \<Rightarrow> (case sliceCells h p of None \<Rightarrow> [] | Some xs \<Rightarrow> xs))"

text \<open>
  \<^verbatim>\<open>GetBackendBySlug\<close> (yaml.go, lines 305-314):
  \<^verbatim>\<open>backendCopy := *backend; return &backendCopy, nil\<close>. A \<^verbatim>\<open>nil\<close> entry
  of the map would make the dereference panic; \<^verbatim>\<open>Update\<close> stores none.
\<close>

datatype 'a outcome = Returned 'a "error option" | Panicked

definition GetBackendBySlug :: "heap \<Rightarrow> refStore \<Rightarrow> string \<Rightarrow> addr option outcome \<times> heap" where
  "GetBackendBySlug h c backendID =
     (case backendsRef c backendID of
        None \<Rightarrow> (Returned None (Some ErrNotFound), h)
      | Some backend \<Rightarrow>
          (case backendCells h backend of
             None \<Rightarrow> (Panicked, h)
           | Some backendCopy \<Rightarrow>
               (let (p, h') = newBackend backendCopy h in (Returned (Some p) None, h'))))"

text \<open>
  \<^verbatim>\<open>GetBackend\<close> of the watcher variant (lines 392-402):
  \<^verbatim>\<open>return backend, nil\<close>, the pointer held by the map.
\<close>

definition GetBackend :: "heap \<Rightarrow> refStore \<Rightarrow> string \<Rightarrow> addr option outcome \<times> heap" where
  "GetBackend h c backendID =
     (case backendsRef c backendID of
        None \<Rightarrow> (Returned None (Some ErrNotFound), h)
      | Some backend \<Rightarrow> (Returned (Some backend) None, h))"

text \<open>
  \<^verbatim>\<open>GetUserSubscribes\<close> (the same in both files): a new array of the same
  length, filled by \<^verbatim>\<open>copy\<close>; a fresh empty slice for an unknown user.
\<close>

definition GetUserSubscribes :: "heap \<Rightarrow> refStore \<Rightarrow> string \<Rightarrow> addr outcome \<times> heap" where
  "GetUserSubscribes h c userID =
     (case userSubscribesRef c userID of
        None \<Rightarrow> (let (p, h') = newSlice [] h in (Returned p None, h'))
      | Some servers \<Rightarrow>
          (let (serversCopy, h') = newSlice (elems h (Some servers)) h
           in (Returned serversCopy None, h')))"

text \<open>\<^verbatim>\<open>SSLAcmeDomains\<close> (yaml.go, lines 346-352).\<close>

definition SSLAcmeDomains :: "heap \<Rightarrow> refStore \<Rightarrow> addr outcome \<times> heap" where
  "SSLAcmeDomains h c =
     (let (domainsCopy, h') = newSlice (elems h (sslAcmeDomainsRef c)) h
      in (Returned domainsCopy None, h'))"

text \<open>
  \<^verbatim>\<open>GetUserParams\<close>: a new map filled from the stored one, entry by entry
  in the watcher variant and by the helper \<^verbatim>\<open>copyMap\<close> in yaml.go; a fresh
  empty map for an unknown user. A stored \<^verbatim>\<open>nil\<close> map has no entries.
\<close>

definition GetUserParams :: "heap \<Rightarrow> refStore \<Rightarrow> string \<Rightarrow> addr outcome \<times> heap" where
  "GetUserParams h c userID =
     (case userParamsRef c userID of
        None \<Rightarrow> (let (p, h') = newMap Map.empty h in (Returned p None, h'))
      | Some params \<Rightarrow>
          (let (paramsCopy, h') =
                 newMap (case mapCells h params of None \<Rightarrow> Map.empty | Some m \<Rightarrow> m) h
           in (Returned paramsCopy None, h')))"

text \<open>
  What the store holds, read through the heap: its backends, its
  subscriptions, its user parameters and its ACME domains.
\<close>

definition snapshot ::
  "heap \<Rightarrow> refStore \<Rightarrow>
     (string \<rightharpoonup> Backend) \<times> (string \<rightharpoonup> string list) \<times> (string \<rightharpoonup> (string \<rightharpoonup> string)) \<times> string list" where
  "snapshot h c =
     ((\<lambda>slug. case backendsRef c slug of None \<Rightarrow> None | Some p \<Rightarrow> backendCells h p),
      (\<lambda>userID. case userSubscribesRef c userID of None \<Rightarrow> None | Some p \<Rightarrow> Some (elems h (Some p))),
      (\<lambda>userID. case userParamsRef c userID of None \<Rightarrow> None | Some p \<Rightarrow> mapCells h p),
      elems h (sslAcmeDomainsRef c))"

text \<open>Every address the store holds was allocated before \<open>nextAddr\<close>.\<close>

definition allocated :: "heap \<Rightarrow> refStore \<Rightarrow> bool" where
  "allocated h c =
     ((\<forall>p \<in> ran (backendsRef c). p < nextAddr h)
      \<and> (\<forall>p \<in> ran (userSubscribesRef c). p < nextAddr h)
      \<and> (\<forall>p \<in> ran (userParamsRef c). p < nextAddr h)
      \<and> (\<forall>p \<in> set_option (sslAcmeDomainsRef c). p < nextAddr h))"

text \<open>What a caller can do with a reference it holds: overwrite what is there.\<close>

definition writeBackend :: "addr \<Rightarrow> Backend \<Rightarrow> heap \<Rightarrow> heap" where
  "writeBackend p b h = h\<lparr>backendCells := (backendCells h)(p \<mapsto> b)\<rparr>"

definition writeSlice :: "addr \<Rightarrow> string list \<Rightarrow> heap \<Rightarrow> heap" where
  "writeSlice p xs h = h\<lparr>sliceCells := (sliceCells h)(p \<mapsto> xs)\<rparr>"

definition writeMap :: "addr \<Rightarrow> (string \<rightharpoonup> string) \<Rightarrow> heap \<Rightarrow> heap" where
  "writeMap p m h = h\<lparr>mapCells := (mapCells h)(p \<mapsto> m)\<rparr>"

section \<open>The task protocol\<close>

text \<open>
  Modelled from the spec: the task protocol client
  (\<^verbatim>\<open>gateway/clients/a2aClient\<close>) and the backend it talks to are not among
  the sources; only the test \<^verbatim>\<open>tests/a2a_client_test.go\<close> that calls them is.
  The definitions of this section follow sections 3, 4.2 and 7 of the spec.
  A task has an id, an optional session id, a state, an optional status
  message and its artifacts; the backend holds the authoritative tasks, and
  may or may not support cancellation. The errors are the ones of the spec's
  taxonomy that concern tasks.
\<close>

datatype TaskState = Submitted | Working | InputRequired | Completed | Failed | Canceled

datatype protocolError = NotFound | NotCancelableError | TransportError | DeadlineExceeded

record Task =
  task_id :: string
  task_sessionId :: "string option"
  task_state :: TaskState
  task_statusMessage :: "string option"
  task_artifacts :: "string list"

record backendState =
  tasks :: "string \<rightharpoonup> Task"
  supportsCancel :: bool

text \<open>
  Modelled from the spec: terminal states are \<^verbatim>\<open>Completed\<close>, \<^verbatim>\<open>Failed\<close>,
  \<^verbatim>\<open>Canceled\<close>.
\<close>

definition terminal :: "TaskState \<Rightarrow> bool" where
  "terminal s = (s = Completed \<or> s = Failed \<or> s = Canceled)"

text \<open>
  Modelled from the spec: a task is created in \<^verbatim>\<open>Submitted\<close> on send. The
  spec wants task ids unique and says nothing of a second submission under an
  id already taken; here it leaves the task as it is.
\<close>

definition submit :: "string \<Rightarrow> string option \<Rightarrow> backendState \<Rightarrow> backendState" where
  "submit tid sid b =
     (case tasks b tid of
        None \<Rightarrow>
          b\<lparr>tasks := (tasks b)(tid \<mapsto>
               \<lparr>task_id = tid, task_sessionId = sid, task_state = Submitted,
                task_statusMessage = None, task_artifacts = []\<rparr>)\<rparr>
      | Some t \<Rightarrow> b)"

text \<open>
  Modelled from the spec: once terminal, no further transition is accepted.
  Any other transition is accepted: the spec orders the states no further.
\<close>

definition transition :: "string \<Rightarrow> TaskState \<Rightarrow> backendState \<Rightarrow> backendState" where
  "transition tid s b =
     (case tasks b tid of
        None \<Rightarrow> b
      | Some t \<Rightarrow>
          if terminal (task_state t) then b
          else b\<lparr>tasks := (tasks b)(tid \<mapsto> t\<lparr>task_state := s\<rparr>)\<rparr>)"

text \<open>
  Modelled from the spec: the artifacts are an ordered sequence,
  append-only during execution.
\<close>

definition addArtifact :: "string \<Rightarrow> string \<Rightarrow> backendState \<Rightarrow> backendState" where
  "addArtifact tid a b =
     (case tasks b tid of
        None \<Rightarrow> b
      | Some t \<Rightarrow>
          if terminal (task_state t) then b
          else b\<lparr>tasks := (tasks b)(tid \<mapsto> t\<lparr>task_artifacts := task_artifacts t @ [a]\<rparr>)\<rparr>)"

text \<open>
  Modelled from the spec: \<^verbatim>\<open>GetTask\<close> is a point-in-time snapshot of remote
  task state and returns whatever state the backend currently reports; a
  task id with no match is \<^verbatim>\<open>NotFound\<close>.
\<close>

definition GetTask :: "string \<Rightarrow> backendState \<Rightarrow> protocolError + Task" where
  "GetTask tid b = (case tasks b tid of None \<Rightarrow> Inl NotFound | Some t \<Rightarrow> Inr t)"

text \<open>
  Modelled from the spec: \<^verbatim>\<open>CancelTask\<close> requests cancellation and signals
  \<^verbatim>\<open>NotCancelableError\<close> if the backend reports the task already reached a
  terminal state or does not support cancellation. A cancellation that is
  accepted moves the task to \<^verbatim>\<open>Canceled\<close>.
\<close>

definition CancelTask :: "string \<Rightarrow> backendState \<Rightarrow> (protocolError + Task) \<times> backendState" where
  "CancelTask tid b =
     (case tasks b tid of
        None \<Rightarrow> (Inl NotFound, b)
      | Some t \<Rightarrow>
          if terminal (task_state t) \<or> \<not> supportsCancel b then (Inl NotCancelableError, b)
          else (Inr (t\<lparr>task_state := Canceled\<rparr>),
                b\<lparr>tasks := (tasks b)(tid \<mapsto> t\<lparr>task_state := Canceled\<rparr>)\<rparr>))"

text \<open>Anything that can happen at the backend, and a run of such steps.\<close>

datatype request =
    Submit string "string option"
  | Transition string TaskState
  | AddArtifact string string
  | Get string
  | Cancel string

fun perform :: "request \<Rightarrow> backendState \<Rightarrow> backendState" where
  "perform (Submit tid sid) b = submit tid sid b"
| "perform (Transition tid s) b = transition tid s b"
| "perform (AddArtifact tid a) b = addArtifact tid a b"
| "perform (Get tid) b = b"
| "perform (Cancel tid) b = snd (CancelTask tid b)"

fun run :: "request list \<Rightarrow> backendState \<Rightarrow> backendState" where
  "run [] b = b"
| "run (r # rs) b = run rs (perform r b)"

text \<open>
  Modelled from the spec: a subscription (\<^verbatim>\<open>SendTaskSubscribe\<close>). The
  transport hands the client one frame after the other: an event of the
  backend, a failure of the transport, or the moment at which the caller
  cancels its context. Events are delivered in the order the backend emitted
  them. \<^verbatim>\<open>final=true\<close> marks the last event for a subscription; no further
  events are delivered afterward and the stream is closed by the producer. A
  stream closed abnormally by the transport is surfaced to the consumer as an
  error value alongside channel closure. After the caller's cancellation the
  producer is expected to cease sending but may race, and the consumer must
  tolerate a few straggler events: \<open>race\<close> is the number of frames the
  producer still handles after the cancellation before it ceases.
\<close>

datatype StreamEvent =
    StatusUpdate TaskState "string option" bool
  | ArtifactUpdate string nat

datatype frame = Frame StreamEvent | Broken | Cancelled

datatype delivered = Deliver StreamEvent | StreamError protocolError

fun isFinal :: "StreamEvent \<Rightarrow> bool" where
  "isFinal (StatusUpdate s msg final) = final"
| "isFinal (ArtifactUpdate a i) = False"

fun finalDelivered :: "delivered \<Rightarrow> bool" where
  "finalDelivered (Deliver e) = isFinal e"
| "finalDelivered (StreamError err) = False"

text \<open>
  Modelled from the spec: what a producer that races still delivers after the
  caller's cancellation, at most \<open>race\<close> frames further on.
\<close>

fun stragglers :: "nat \<Rightarrow> frame list \<Rightarrow> delivered list" where
  "stragglers 0 fs = []"
| "stragglers (Suc race) [] = []"
| "stragglers (Suc race) (Frame e # rest) =
     Deliver e # (if isFinal e then [] else stragglers race rest)"
| "stragglers (Suc race) (Broken # rest) = [StreamError TransportError]"
| "stragglers (Suc race) (Cancelled # rest) = stragglers (Suc race) rest"

fun SendTaskSubscribe :: "nat \<Rightarrow> frame list \<Rightarrow> delivered list" where
  "SendTaskSubscribe race [] = []"
| "SendTaskSubscribe race (Frame e # rest) =
     Deliver e # (if isFinal e then [] else SendTaskSubscribe race rest)"
| "SendTaskSubscribe race (Broken # rest) = [StreamError TransportError]"
| "SendTaskSubscribe race (Cancelled # rest) = stragglers race rest"

text \<open>The backend emits a final event before the transport fails or the caller cancels.\<close>

fun reachesFinal :: "frame list \<Rightarrow> bool" where
  "reachesFinal [] = False"
| "reachesFinal (Frame e # rest) = (isFinal e \<or> reachesFinal rest)"
| "reachesFinal (Broken # rest) = False"
| "reachesFinal (Cancelled # rest) = False"

section \<open>Concrete stores, documents and events\<close>

text \<open>
  The zero values of the two parsed documents (\<^verbatim>\<open>var yamlCfg yamlConfig\<close>),
  and the inputs at which the theorems below are evaluated.
\<close>

definition zeroYamlConfig :: "'auth yamlConfig" where
  "zeroYamlConfig =
     \<lparr>Server = \<lparr>Address = '''', Name = '''', Version = '''', LogLevel = '''',
                DiscoveringHandlerPath = '''', FrontendAddress = '''', Authorization = '''',
                SSL = \<lparr>Enabled = False, Mode = '''', CertFile = '''', KeyFile = '''',
                       AcmeDomains = [], AcmeEmail = '''', AcmeCacheDir = ''''\<rparr>,
                A2A = None\<rparr>,
      Users = [], Backends = []\<rparr>"

definition zeroYamlConfig_w :: yamlConfig_w where
  "zeroYamlConfig_w =
     \<lparr>Server_w = \<lparr>Address_w = '''', Name_w = '''', Version_w = '''', LogLevel_w = '''',
                  InfoHandler = '''', FrontendAddress_w = '''', Authorization_w = ''''\<rparr>,
      Users_w = [], Backends_w = []\<rparr>"

definition unreadable :: "string \<Rightarrow> error + string" where
  "unreadable path = Inl (OsError ''no such file'')"

definition document :: "string \<Rightarrow> string \<Rightarrow> error + string" where
  "document contents path = Inr contents"

definition malformed :: "string \<Rightarrow> error + 'y" where
  "malformed contents = Inl (YamlError ''did not find expected node content'')"

definition withAuthorization :: "string \<Rightarrow> 'auth yamlConfig" where
  "withAuthorization a = zeroYamlConfig\<lparr>Server := (Server zeroYamlConfig)\<lparr>Authorization := a\<rparr>\<rparr>"

definition withAuthorization_w :: "string \<Rightarrow> yamlConfig_w" where
  "withAuthorization_w a =
     zeroYamlConfig_w\<lparr>Server_w := (Server_w zeroYamlConfig_w)\<lparr>Authorization_w := a\<rparr>\<rparr>"

text \<open>One user with one key hash and one subscription, and one backend.\<close>

definition oneUser :: "'auth yamlConfig" where
  "oneUser =
     zeroYamlConfig
       \<lparr>Users := [(''alice'', \<lparr>Keys = [''h1''], Subscribes = [''b'']\<rparr>)],
        Backends := [(''b'', \<lparr>url = ''http://upstream'', bearer = ''secret''\<rparr>)]\<rparr>"

definition oneUser_w :: yamlConfig_w where
  "oneUser_w =
     zeroYamlConfig_w
       \<lparr>Users_w := [(''alice'', \<lparr>Keys = [''h1''], Subscribes = [''b'']\<rparr>)],
        Backends_w := [(''b'', \<lparr>url = ''http://upstream'', bearer = ''secret''\<rparr>)]\<rparr>"

definition loadedStore :: "unit YamlConfig" where
  "loadedStore =
     snd (Update (document ''users: {alice: {keys: [h1], subscribes: [b]}}'') (\<lambda>d. Inr oneUser)
            (\<lambda>s. s) (newConfig ''config.yaml''))"

definition loadedStore_w :: YamlConfig_w where
  "loadedStore_w =
     snd (Update_w (document ''users: {alice: {keys: [h1], subscribes: [b]}}'') (\<lambda>d. Inr oneUser_w)
            (newConfig_w ''config.yaml''))"

text \<open>
  A watcher started on a file last modified at time 0, and a run of change
  events against a minimum interval of one second.
\<close>

definition changeEvent :: "Op \<Rightarrow> Event" where
  "changeEvent op = \<lparr>EventName = ''config.yaml'', EventOp = {op}\<rparr>"

definition watchedStore :: YamlConfig_w where
  "watchedStore = fst (snd (StartWatcher None (Inr 0) (newConfig_w ''config.yaml'')))"

definition burst :: "selected list" where
  "burst =
     [EventsRecv (changeEvent Write) 200000000 unreadable,
      EventsRecv (changeEvent Create) 1500000000 unreadable,
      EventsRecv (changeEvent Write) 1600000000 unreadable,
      EventsRecv (changeEvent Chmod) 4000000000 unreadable,
      EventsRecv (changeEvent Write) 2500000001 unreadable,
      WatcherDone]"

text \<open>A heap with one backend, held by the store under the slug \<open>b\<close>.\<close>

definition oneBackendHeap :: heap where
  "oneBackendHeap =
     \<lparr>backendCells = [0 \<mapsto> \<lparr>URL = ''http://upstream'', Bearer = ''secret''\<rparr>],
      sliceCells = Map.empty, mapCells = Map.empty, nextAddr = 1\<rparr>"

definition oneBackendStore :: refStore where
  "oneBackendStore =
     \<lparr>backendsRef = [''b'' \<mapsto> 0], userSubscribesRef = Map.empty, userParamsRef = Map.empty,
      sslAcmeDomainsRef = None\<rparr>"

text \<open>A backend with one completed task.\<close>

definition completedTask :: Task where
  "completedTask =
     \<lparr>task_id = ''T1'', task_sessionId = None, task_state = Completed,
      task_statusMessage = None, task_artifacts = [''hello.py'']\<rparr>"

definition oneTaskBackend :: backendState where
  "oneTaskBackend = \<lparr>tasks = [''T1'' \<mapsto> completedTask], supportsCancel = True\<rparr>"

section \<open>Reloading the store\<close>

text \<open>
  Claim C1 (reload is all-or-nothing). \<^verbatim>\<open>Update\<close> returns an error exactly
  when the backing file is unreadable or does not parse, and then the store
  it leaves behind is the store it was called on, field by field. This holds
  for the store of yaml.go and for the watcher variant.
\<close>

theorem Update_all_or_nothing:
  "((fst (Update readFile unmarshal unicodeLower c) \<noteq> None)
      = unreadableOrMalformed readFile unmarshal (configPath c))
   \<and> (unreadableOrMalformed readFile unmarshal (configPath c) \<longrightarrow>
        snd (Update readFile unmarshal unicodeLower c) = c)
   \<and> ((fst (Update_w readFile_w unmarshal_w cw) \<noteq> None)
      = unreadableOrMalformed readFile_w unmarshal_w (configPath_w cw))
   \<and> (unreadableOrMalformed readFile_w unmarshal_w (configPath_w cw) \<longrightarrow>
        snd (Update_w readFile_w unmarshal_w cw) = cw)"
proof -
  have shared: "(fst (Update readFile unmarshal unicodeLower c) \<noteq> None)
      = unreadableOrMalformed readFile unmarshal (configPath c)"
    by (simp add: Update_def unreadableOrMalformed_def split: sum.splits)
  have kept: "unreadableOrMalformed readFile unmarshal (configPath c) \<longrightarrow>
        snd (Update readFile unmarshal unicodeLower c) = c"
    by (simp add: Update_def unreadableOrMalformed_def split: sum.splits)
  have watcher: "(fst (Update_w readFile_w unmarshal_w cw) \<noteq> None)
      = unreadableOrMalformed readFile_w unmarshal_w (configPath_w cw)"
    by (simp add: Update_w_def unreadableOrMalformed_def split: sum.splits prod.splits)
  have kept_w: "unreadableOrMalformed readFile_w unmarshal_w (configPath_w cw) \<longrightarrow>
        snd (Update_w readFile_w unmarshal_w cw) = cw"
    by (simp add: Update_w_def unreadableOrMalformed_def split: sum.splits)
  from shared kept watcher kept_w show ?thesis by blast
qed

lemma loadedStore_userKeyHashes:
  "userKeyHashes loadedStore ''h1'' = Some ''alice'' \<and> userKeyHashes loadedStore ''h2'' = None"
  by (simp add: loadedStore_def Update_def document_def oneUser_def zeroYamlConfig_def
        applyUsersBackends_def applyA2A_def applySSL_def applyServer_def)

lemma loadedStore_w_userAuthKeys:
  "userAuthKeys loadedStore_w ''h1'' = Some ''alice'' \<and> userAuthKeys loadedStore_w ''h2'' = None"
  by (simp add: loadedStore_w_def Update_w_def document_def oneUser_w_def zeroYamlConfig_w_def)

text \<open>
  At a store loaded with one user: a reload against an unreadable file, and
  in the watcher variant against a file that does not parse.
\<close>

theorem Update_all_or_nothing_witness:
  "fst (Update unreadable (\<lambda>d. Inr oneUser) (\<lambda>s. s) loadedStore) \<noteq> None
   \<and> snd (Update unreadable (\<lambda>d. Inr oneUser) (\<lambda>s. s) loadedStore) = loadedStore
   \<and> userKeyHashes (snd (Update unreadable (\<lambda>d. Inr oneUser) (\<lambda>s. s) loadedStore)) ''h1''
        = Some ''alice''
   \<and> fst (Update_w (document ''users: ['') malformed loadedStore_w) \<noteq> None
   \<and> snd (Update_w (document ''users: ['') malformed loadedStore_w) = loadedStore_w
   \<and> userAuthKeys (snd (Update_w (document ''users: ['') malformed loadedStore_w)) ''h1''
        = Some ''alice''"
proof -
  have bad: "unreadableOrMalformed unreadable (\<lambda>d. (Inr oneUser :: error + unit yamlConfig))
               (configPath loadedStore)"
    by (simp add: unreadableOrMalformed_def unreadable_def)
  have bad_w: "unreadableOrMalformed (document ''users: ['')
                 (malformed :: string \<Rightarrow> error + yamlConfig_w) (configPath_w loadedStore_w)"
    by (simp add: unreadableOrMalformed_def document_def malformed_def)
  from Update_all_or_nothing
         [of unreadable "\<lambda>d. Inr oneUser" "\<lambda>s. s" loadedStore
             "document ''users: [''" malformed loadedStore_w]
       bad bad_w loadedStore_userKeyHashes loadedStore_w_userAuthKeys
  show ?thesis by simp
qed

text \<open>
  Claim C5, as the claim states it, fails on yaml.go: that file lower-cases
  the authorization string before the switch, so \<^verbatim>\<open>NONE\<close>, which is none of
  the three listed strings, yields \<open>NotAuthorizedEverywhere\<close>
  (\<^verbatim>\<open>NoAuthRequired\<close>) and not the default.
\<close>

lemma lower_NONE: "ToLower (\<lambda>s. s) ''NONE'' = ''none''"
  by code_simp

lemma lower_Marked: "ToLower (\<lambda>s. s) ''Marked_Methods'' = ''marked_methods''"
  by code_simp

theorem authorization_NONE_counterexample:
  "''NONE'' \<noteq> ''users_only'' \<and> ''NONE'' \<noteq> ''marked_methods'' \<and> ''NONE'' \<noteq> ''none''
   \<and> fst (Update (document ''server: {authorization: NONE}'')
            (\<lambda>d. Inr (withAuthorization ''NONE'')) (\<lambda>s. s)
            (newConfig ''config.yaml'' :: unit YamlConfig)) = None
   \<and> authorizationType (snd (Update (document ''server: {authorization: NONE}'')
            (\<lambda>d. Inr (withAuthorization ''NONE'')) (\<lambda>s. s)
            (newConfig ''config.yaml'' :: unit YamlConfig))) = NotAuthorizedEverywhere
   \<and> NotAuthorizedEverywhere \<noteq> AuthorizedUsersOnly"
  by (simp add: Update_def applyUsersBackends_def applyA2A_def applySSL_def applyServer_def
        document_def withAuthorization_def zeroYamlConfig_def lower_NONE authorizationSwitch_def
        newConfig_def)

lemma Update_authorizationType:
  "readFile (configPath c) = Inr data \<Longrightarrow> unmarshal data = Inr yamlCfg \<Longrightarrow>
     fst (Update readFile unmarshal unicodeLower c) = None
     \<and> authorizationType (snd (Update readFile unmarshal unicodeLower c))
         = authorizationSwitch (ToLower unicodeLower (Authorization (Server yamlCfg)))"
  by (simp add: Update_def applyUsersBackends_def applyA2A_def applySSL_def applyServer_def
        split: prod.splits option.splits)

lemma Update_w_authorizationType:
  "readFile (configPath_w cw) = Inr data \<Longrightarrow> unmarshal data = Inr yamlCfg \<Longrightarrow>
     fst (Update_w readFile unmarshal cw) = None
     \<and> authorizationType_w (snd (Update_w readFile unmarshal cw))
         = authorizationSwitch (Authorization_w (Server_w yamlCfg))"
  by (simp add: Update_w_def split: prod.splits)

lemma map_lowerASCII_id: "\<not> list_ex isUpperASCII s \<Longrightarrow> map lowerASCII s = s"
  by (induction s) (simp_all add: lowerASCII_def)

lemma ToLower_ASCII: "isASCII s \<Longrightarrow> ToLower unicodeLower s = map lowerASCII s"
  by (simp add: ToLower_def map_lowerASCII_id)

lemma authorizationSwitch_cases:
  "authorizationSwitch ''users_only'' = AuthorizedUsersOnly
   \<and> authorizationSwitch ''marked_methods'' = NotAuthorizedToMarkedMethods
   \<and> authorizationSwitch ''none'' = NotAuthorizedEverywhere
   \<and> (s \<noteq> ''users_only'' \<and> s \<noteq> ''marked_methods'' \<and> s \<noteq> ''none''
        \<longrightarrow> authorizationSwitch s = AuthorizedUsersOnly)"
  by (simp add: authorizationSwitch_def)

text \<open>
  Claim C5, amended (authorization policy after a successful reload). When
  the file is read and parses, \<^verbatim>\<open>Update\<close> succeeds and the stored policy is
  the outcome of the switch: on the lower-cased authorization string in
  yaml.go (for a string of ASCII bytes, the string with \<^verbatim>\<open>A\<close>-\<^verbatim>\<open>Z\<close> replaced by
  \<^verbatim>\<open>a\<close>-\<^verbatim>\<open>z\<close>), on the string itself in the watcher variant. The switch
  maps \<^verbatim>\<open>users_only\<close> to \<open>AuthorizedUsersOnly\<close>, \<^verbatim>\<open>marked_methods\<close> to
  \<open>NotAuthorizedToMarkedMethods\<close>, \<^verbatim>\<open>none\<close> to \<open>NotAuthorizedEverywhere\<close> and
  every other string to \<open>AuthorizedUsersOnly\<close>.
\<close>

theorem authorization_policy_after_Update:
  assumes "readFile (configPath c) = Inr data" and "unmarshal data = Inr yamlCfg"
    and "readFile_w (configPath_w cw) = Inr data_w" and "unmarshal_w data_w = Inr yamlCfg_w"
  shows
  "fst (Update readFile unmarshal unicodeLower c) = None
   \<and> authorizationType (snd (Update readFile unmarshal unicodeLower c))
       = authorizationSwitch (ToLower unicodeLower (Authorization (Server yamlCfg)))
   \<and> (isASCII (Authorization (Server yamlCfg)) \<longrightarrow>
        ToLower unicodeLower (Authorization (Server yamlCfg))
          = map lowerASCII (Authorization (Server yamlCfg)))
   \<and> fst (Update_w readFile_w unmarshal_w cw) = None
   \<and> authorizationType_w (snd (Update_w readFile_w unmarshal_w cw))
       = authorizationSwitch (Authorization_w (Server_w yamlCfg_w))
   \<and> authorizationSwitch ''users_only'' = AuthorizedUsersOnly
   \<and> authorizationSwitch ''marked_methods'' = NotAuthorizedToMarkedMethods
   \<and> authorizationSwitch ''none'' = NotAuthorizedEverywhere
   \<and> (s \<noteq> ''users_only'' \<and> s \<noteq> ''marked_methods'' \<and> s \<noteq> ''none''
        \<longrightarrow> authorizationSwitch s = AuthorizedUsersOnly)"
proof -
  note shared = Update_authorizationType [of readFile c data unmarshal yamlCfg unicodeLower]
  note watcher = Update_w_authorizationType [of readFile_w cw data_w unmarshal_w yamlCfg_w]
  note lower = ToLower_ASCII [of "Authorization (Server yamlCfg)" unicodeLower]
  from assms shared watcher lower authorizationSwitch_cases [of s] show ?thesis
    by blast
qed

theorem authorization_policy_after_Update_witness:
  "authorizationType (snd (Update (document ''server: {authorization: Marked_Methods}'')
        (\<lambda>d. Inr (withAuthorization ''Marked_Methods'')) (\<lambda>s. s)
        (newConfig ''config.yaml'' :: unit YamlConfig))) = NotAuthorizedToMarkedMethods
   \<and> authorizationType_w (snd (Update_w (document ''server: {authorization: bogus}'')
        (\<lambda>d. Inr (withAuthorization_w ''bogus'')) (newConfig_w ''config.yaml'')))
       = AuthorizedUsersOnly"
proof -
  have r: "document ''server: {authorization: Marked_Methods}''
             (configPath (newConfig ''config.yaml'' :: unit YamlConfig))
           = Inr ''server: {authorization: Marked_Methods}''"
    by (simp add: document_def)
  have rw: "document ''server: {authorization: bogus}'' (configPath_w (newConfig_w ''config.yaml''))
           = Inr ''server: {authorization: bogus}''"
    by (simp add: document_def)
  have a: "Authorization (Server (withAuthorization ''Marked_Methods'' :: unit yamlConfig))
           = ''Marked_Methods''"
    by (simp add: withAuthorization_def)
  have aw: "Authorization_w (Server_w (withAuthorization_w ''bogus'')) = ''bogus''"
    by (simp add: withAuthorization_w_def)
  from authorization_policy_after_Update
         [of "document ''server: {authorization: Marked_Methods}''"
             "newConfig ''config.yaml'' :: unit YamlConfig"
             "''server: {authorization: Marked_Methods}''"
             "\<lambda>d. Inr (withAuthorization ''Marked_Methods'')" "withAuthorization ''Marked_Methods''"
             "document ''server: {authorization: bogus}''" "newConfig_w ''config.yaml''"
             "''server: {authorization: bogus}''"
             "\<lambda>d. Inr (withAuthorization_w ''bogus'')" "withAuthorization_w ''bogus''"
             "\<lambda>s. s" "''bogus''", OF r refl rw refl]
  show ?thesis
    by (simp add: a aw lower_Marked)
qed

section \<open>Resolving a user\<close>

text \<open>
  Claim C4, as the claim states it, fails on the watcher variant, whose
  \<^verbatim>\<open>GetUserIDByKeyHash\<close> does not consult the in-memory index: it reads the
  backing file again. With the file the store was loaded from, a key hash
  that is bound nowhere yields the empty user id and no error, not
  \<open>ErrNotFound\<close>. And once the file holds no user any more, the key hash
  \<open>h1\<close>, still bound to \<open>alice\<close> in the store, resolves to no identity.
\<close>

theorem GetUserIDByKeyHash_w_counterexample:
  "userAuthKeys loadedStore_w ''h2'' = None
   \<and> GetUserIDByKeyHash_w (document ''users: {alice: {keys: [h1], subscribes: [b]}}'')
        (\<lambda>d. Inr oneUser_w) loadedStore_w ''h2'' = ('''', None)
   \<and> snd (GetUserIDByKeyHash_w (document ''users: {alice: {keys: [h1], subscribes: [b]}}'')
        (\<lambda>d. Inr oneUser_w) loadedStore_w ''h2'') \<noteq> Some ErrNotFound
   \<and> userAuthKeys loadedStore_w ''h1'' = Some ''alice''
   \<and> GetUserIDByKeyHash_w (document ''users: {}'') (\<lambda>d. Inr zeroYamlConfig_w) loadedStore_w ''h1''
        = ('''', None)"
  by (simp add: loadedStore_w_userAuthKeys GetUserIDByKeyHash_w_def document_def
        zeroYamlConfig_w_def oneUser_w_def)

lemma findKeyHash_Some:
  "findKeyHash us k = Some u \<Longrightarrow> \<exists>usr. (u, usr) \<in> set us \<and> k \<in> set (Keys usr)"
  by (induction us k rule: findKeyHash.induct) (auto simp: list_ex_iff split: if_splits)

lemma findKeyHash_None:
  "(findKeyHash us k = None) = (\<forall>(u, usr) \<in> set us. k \<notin> set (Keys usr))"
  by (induction us k rule: findKeyHash.induct) (auto simp: list_ex_iff)

text \<open>
  Claim C4, amended (resolving a user). In yaml.go
  \<^verbatim>\<open>GetUserIDByKeyHash\<close> is a lookup in the in-memory index: the empty key
  hash yields the empty user id and no error, a key hash bound in the index
  yields its user, any other key hash yields \<open>ErrNotFound\<close>. In the watcher
  variant the function reads and parses the backing file on every call: it
  returns the wrapped error when that fails; otherwise it returns a user whose
  key list in the file holds the key hash, and the empty user id with no error
  when no user's list does.
\<close>

theorem GetUserIDByKeyHash_contract:
  "GetUserIDByKeyHash c '''' = ('''', None)
   \<and> (keyHash \<noteq> '''' \<longrightarrow> userKeyHashes c keyHash = Some userID \<longrightarrow>
        GetUserIDByKeyHash c keyHash = (userID, None))
   \<and> (keyHash \<noteq> '''' \<longrightarrow> userKeyHashes c keyHash = None \<longrightarrow>
        GetUserIDByKeyHash c keyHash = ('''', Some ErrNotFound))
   \<and> (\<forall>err. readFile (configPath_w cw) = Inl err \<longrightarrow>
        GetUserIDByKeyHash_w readFile unmarshal cw keyHash
          = ('''', Some (Wrapped ''failed to read config file'' err)))
   \<and> (\<forall>data err. readFile (configPath_w cw) = Inr data \<longrightarrow> unmarshal data = Inl err \<longrightarrow>
        GetUserIDByKeyHash_w readFile unmarshal cw keyHash
          = ('''', Some (Wrapped ''failed to parse YAML'' err)))
   \<and> (\<forall>data config. readFile (configPath_w cw) = Inr data \<longrightarrow> unmarshal data = Inr config \<longrightarrow>
        (\<exists>userID user. (userID, user) \<in> set (Users_w config) \<and> keyHash \<in> set (Keys user)
            \<and> GetUserIDByKeyHash_w readFile unmarshal cw keyHash = (userID, None))
        \<or> ((\<forall>(userID, user) \<in> set (Users_w config). keyHash \<notin> set (Keys user))
            \<and> GetUserIDByKeyHash_w readFile unmarshal cw keyHash = ('''', None)))"
proof -
  have shared: "GetUserIDByKeyHash c '''' = ('''', None)"
    "keyHash \<noteq> '''' \<longrightarrow> userKeyHashes c keyHash = Some userID \<longrightarrow>
        GetUserIDByKeyHash c keyHash = (userID, None)"
    "keyHash \<noteq> '''' \<longrightarrow> userKeyHashes c keyHash = None \<longrightarrow>
        GetUserIDByKeyHash c keyHash = ('''', Some ErrNotFound)"
    by (simp_all add: GetUserIDByKeyHash_def)
  have rd: "\<forall>err. readFile (configPath_w cw) = Inl err \<longrightarrow>
        GetUserIDByKeyHash_w readFile unmarshal cw keyHash
          = ('''', Some (Wrapped ''failed to read config file'' err))"
    by (simp add: GetUserIDByKeyHash_w_def)
  have ps: "\<forall>data err. readFile (configPath_w cw) = Inr data \<longrightarrow> unmarshal data = Inl err \<longrightarrow>
        GetUserIDByKeyHash_w readFile unmarshal cw keyHash
          = ('''', Some (Wrapped ''failed to parse YAML'' err))"
    by (simp add: GetUserIDByKeyHash_w_def)
  have ok: "\<forall>data config. readFile (configPath_w cw) = Inr data \<longrightarrow> unmarshal data = Inr config \<longrightarrow>
        (\<exists>userID user. (userID, user) \<in> set (Users_w config) \<and> keyHash \<in> set (Keys user)
            \<and> GetUserIDByKeyHash_w readFile unmarshal cw keyHash = (userID, None))
        \<or> ((\<forall>(userID, user) \<in> set (Users_w config). keyHash \<notin> set (Keys user))
            \<and> GetUserIDByKeyHash_w readFile unmarshal cw keyHash = ('''', None))"
  proof (intro allI impI)
    fix data config
    assume r: "readFile (configPath_w cw) = Inr data" and u: "unmarshal data = Inr config"
    show "(\<exists>userID user. (userID, user) \<in> set (Users_w config) \<and> keyHash \<in> set (Keys user)
            \<and> GetUserIDByKeyHash_w readFile unmarshal cw keyHash = (userID, None))
        \<or> ((\<forall>(userID, user) \<in> set (Users_w config). keyHash \<notin> set (Keys user))
            \<and> GetUserIDByKeyHash_w readFile unmarshal cw keyHash = ('''', None))"
    proof (cases "findKeyHash (Users_w config) keyHash")
      case None
      then have "\<forall>(userID, user) \<in> set (Users_w config). keyHash \<notin> set (Keys user)"
        by (simp only: findKeyHash_None)
      then show ?thesis using r u None
        by (simp add: GetUserIDByKeyHash_w_def)
    next
      case (Some uid)
      from findKeyHash_Some [OF Some] obtain usr where
        "(uid, usr) \<in> set (Users_w config)" "keyHash \<in> set (Keys usr)" by blast
      then show ?thesis using r u Some
        by (auto simp: GetUserIDByKeyHash_w_def)
    qed
  qed
  from shared rd ps ok show ?thesis by blast
qed

theorem GetUserIDByKeyHash_contract_witness:
  "GetUserIDByKeyHash loadedStore '''' = ('''', None)
   \<and> GetUserIDByKeyHash loadedStore ''h1'' = (''alice'', None)
   \<and> GetUserIDByKeyHash loadedStore ''h2'' = ('''', Some ErrNotFound)
   \<and> GetUserIDByKeyHash_w unreadable (\<lambda>d. Inr oneUser_w) loadedStore_w ''h1''
        = ('''', Some (Wrapped ''failed to read config file'' (OsError ''no such file'')))
   \<and> GetUserIDByKeyHash_w (document ''users: {alice: {keys: [h1]}}'') (\<lambda>d. Inr oneUser_w)
        loadedStore_w ''h1'' = (''alice'', None)
   \<and> GetUserIDByKeyHash_w (document ''users: {alice: {keys: [h1]}}'') (\<lambda>d. Inr oneUser_w)
        loadedStore_w ''h2'' = ('''', None)"
proof -
  note at_h1 = GetUserIDByKeyHash_contract
    [of loadedStore "''h1''" "''alice''" unreadable loadedStore_w "\<lambda>d. Inr oneUser_w"]
  note at_h2 = GetUserIDByKeyHash_contract
    [of loadedStore "''h2''" "''alice''" "document ''users: {alice: {keys: [h1]}}''"
        loadedStore_w "\<lambda>d. Inr oneUser_w"]
  have found: "GetUserIDByKeyHash_w (document ''users: {alice: {keys: [h1]}}'')
        (\<lambda>d. Inr oneUser_w) loadedStore_w ''h1'' = (''alice'', None)"
    by (simp add: GetUserIDByKeyHash_w_def document_def oneUser_w_def zeroYamlConfig_w_def)
  have absent: "GetUserIDByKeyHash_w (document ''users: {alice: {keys: [h1]}}'')
        (\<lambda>d. Inr oneUser_w) loadedStore_w ''h2'' = ('''', None)"
    using at_h2 by (simp add: document_def oneUser_w_def zeroYamlConfig_w_def)
  have failed: "GetUserIDByKeyHash_w unreadable (\<lambda>d. Inr oneUser_w) loadedStore_w ''h1''
        = ('''', Some (Wrapped ''failed to read config file'' (OsError ''no such file'')))"
    using at_h1 by (simp add: unreadable_def)
  have looked: "GetUserIDByKeyHash loadedStore '''' = ('''', None)
     \<and> GetUserIDByKeyHash loadedStore ''h1'' = (''alice'', None)"
    using at_h1 loadedStore_userKeyHashes by simp
  have missing: "GetUserIDByKeyHash loadedStore ''h2'' = ('''', Some ErrNotFound)"
    using at_h2 loadedStore_userKeyHashes by simp
  from looked missing failed found absent show ?thesis by blast
qed

section \<open>The agent card\<close>

text \<open>
  Claim C10 (defaults of the A2A card). \<^verbatim>\<open>GetA2ACardBaseInfo\<close> returns no
  error and a card whose name is \<^verbatim>\<open>Gate4AI A2A Agent\<close> when the configured
  name is empty, whose version is \<^verbatim>\<open>1.0.0\<close> when the configured version is
  empty, and whose default input and output modes are the one-element list
  \<^verbatim>\<open>text\<close> when the configured list is empty; a configured value that is not
  empty is returned as it is.
\<close>

theorem GetA2ACardBaseInfo_defaults:
  "card_Name (fst (GetA2ACardBaseInfo derefString c agentURL))
     = (if a2aAgentNameValue c = '''' then ''Gate4AI A2A Agent'' else a2aAgentNameValue c)
   \<and> card_Version (fst (GetA2ACardBaseInfo derefString c agentURL))
     = (if a2aAgentVersionValue c = '''' then ''1.0.0'' else a2aAgentVersionValue c)
   \<and> card_DefaultInputModes (fst (GetA2ACardBaseInfo derefString c agentURL))
     = (if a2aDefaultInputModesValue c = [] then [''text''] else a2aDefaultInputModesValue c)
   \<and> card_DefaultOutputModes (fst (GetA2ACardBaseInfo derefString c agentURL))
     = (if a2aDefaultOutputModesValue c = [] then [''text''] else a2aDefaultOutputModesValue c)
   \<and> snd (GetA2ACardBaseInfo derefString c agentURL) = None"
  by (simp add: GetA2ACardBaseInfo_def Let_def)

theorem GetA2ACardBaseInfo_defaults_witness:
  "card_Name (fst (GetA2ACardBaseInfo (\<lambda>p. case p of None \<Rightarrow> '''' | Some s \<Rightarrow> s)
        (newConfig ''config.yaml'' :: unit YamlConfig) ''http://gate/a2a'')) = ''Gate4AI A2A Agent''
   \<and> card_Version (fst (GetA2ACardBaseInfo (\<lambda>p. case p of None \<Rightarrow> '''' | Some s \<Rightarrow> s)
        (newConfig ''config.yaml'' :: unit YamlConfig) ''http://gate/a2a'')) = ''1.0.0''
   \<and> card_DefaultInputModes (fst (GetA2ACardBaseInfo (\<lambda>p. case p of None \<Rightarrow> '''' | Some s \<Rightarrow> s)
        (newConfig ''config.yaml'' :: unit YamlConfig) ''http://gate/a2a'')) = [''text'']
   \<and> card_DefaultOutputModes (fst (GetA2ACardBaseInfo (\<lambda>p. case p of None \<Rightarrow> '''' | Some s \<Rightarrow> s)
        ((newConfig ''config.yaml'' :: unit YamlConfig)
           \<lparr>a2aAgentNameValue := ''Coder'', a2aDefaultOutputModesValue := [''text'', ''file'']\<rparr>)
        ''http://gate/a2a'')) = [''text'', ''file'']
   \<and> card_Name (fst (GetA2ACardBaseInfo (\<lambda>p. case p of None \<Rightarrow> '''' | Some s \<Rightarrow> s)
        ((newConfig ''config.yaml'' :: unit YamlConfig)
           \<lparr>a2aAgentNameValue := ''Coder'', a2aDefaultOutputModesValue := [''text'', ''file'']\<rparr>)
        ''http://gate/a2a'')) = ''Coder''"
  using GetA2ACardBaseInfo_defaults
          [of "\<lambda>p. case p of None \<Rightarrow> '''' | Some s \<Rightarrow> s"
              "newConfig ''config.yaml'' :: unit YamlConfig" "''http://gate/a2a''"]
        GetA2ACardBaseInfo_defaults
          [of "\<lambda>p. case p of None \<Rightarrow> '''' | Some s \<Rightarrow> s"
              "(newConfig ''config.yaml'' :: unit YamlConfig)
                 \<lparr>a2aAgentNameValue := ''Coder'', a2aDefaultOutputModesValue := [''text'', ''file'']\<rparr>"
              "''http://gate/a2a''"]
  by (simp add: newConfig_def)

section \<open>The debounce of the file watcher\<close>

lemma sint_bounds: "minDuration \<le> sint (m :: 64 word) \<and> sint m \<le> maxDuration"
  using sint_ge [of m] sint_lt [of m] by (simp add: minDuration_def maxDuration_def)

lemma Sub_gt: "sint (m :: 64 word) < Sub t u \<Longrightarrow> sint m < t - u"
  using sint_bounds [of m] by (auto simp: Sub_def split: if_splits)

lemma Sub_le: "t - u < sint (m :: 64 word) \<Longrightarrow> \<not> sint m < Sub t u"
  using sint_bounds [of m] by (auto simp: Sub_def split: if_splits)

lemma Update_w_lastModified: "lastModified (snd (Update_w rf um c)) = lastModified c"
  by (simp add: Update_w_def split: sum.splits prod.splits)

lemma handleEvent_reload:
  assumes "(Has ev Write \<or> Has ev Create) \<and> sint m < Sub now (lastModified c)"
  shows "handleEvent m um ev now rf c =
           (snd (Update_w rf um (c\<lparr>lastModified := now\<rparr>)),
            [StoreLastModified now, RunUpdate (fst (Update_w rf um (c\<lparr>lastModified := now\<rparr>)))])"
  using assms by (simp add: handleEvent_def Let_def split: prod.splits)

lemma handleEvent_drop:
  assumes "\<not> ((Has ev Write \<or> Has ev Create) \<and> sint m < Sub now (lastModified c))"
  shows "handleEvent m um ev now rf c = (c, [])"
  using assms by (auto simp add: handleEvent_def Let_def)

lemma reloadTimes_append: "reloadTimes (es @ es') = reloadTimes es @ reloadTimes es'"
  by (induction es rule: reloadTimes.induct) simp_all

lemma watchLoop_EventsRecv:
  "watchLoop m um (EventsRecv ev now rf # rest) c =
     (fst (watchLoop m um rest (fst (handleEvent m um ev now rf c))),
      snd (handleEvent m um ev now rf c)
        @ snd (watchLoop m um rest (fst (handleEvent m um ev now rf c))))"
  by (simp add: case_prod_beta)

text \<open>
  The invariant of the loop: the timestamp of the store is the time of the
  last reload the loop scheduled, or the timestamp it started with.
\<close>

lemma watchLoop_spaced:
  "spaced (sint m) (lastModified c) (reloadTimes (snd (watchLoop m um turns c)))
   \<and> inOrder (snd (watchLoop m um turns c))
   \<and> lastModified (fst (watchLoop m um turns c))
       = last (lastModified c # reloadTimes (snd (watchLoop m um turns c)))"
proof (induction turns arbitrary: c)
  case Nil
  show ?case by simp
next
  case (Cons turn turns)
  show ?case
  proof (cases turn)
    case (EventsRecv ev now rf)
    show ?thesis
    proof (cases "(Has ev Write \<or> Has ev Create) \<and> sint m < Sub now (lastModified c)")
      case True
      let ?c1 = "snd (Update_w rf um (c\<lparr>lastModified := now\<rparr>))"
      have lm: "lastModified ?c1 = now" by (simp add: Update_w_lastModified)
      from Cons.IH [of ?c1] True show ?thesis
        by (simp add: EventsRecv watchLoop_EventsRecv handleEvent_reload [OF True] lm
              del: watchLoop.simps)
    next
      case False
      from Cons.IH [of c] show ?thesis
        by (simp add: EventsRecv watchLoop_EventsRecv handleEvent_drop [OF False]
              del: watchLoop.simps)
    qed
  next
    case (ErrorsRecv err)
    with Cons.IH [of c] show ?thesis by simp
  qed simp_all
qed

text \<open>
  Claim C3 (debounce). The timestamp \<^verbatim>\<open>lastModified\<close> of the store is the
  last-applied timestamp: the time of the last reload the watcher scheduled
  and, before the first one, the modification time of the file read by
  \<^verbatim>\<open>StartWatcher\<close>. For one event handled at time \<open>now\<close>:
  \<^item> if the handler does anything, the event is a write or a create, more than
    \<open>minInterval\<close> has passed since the timestamp, the handler first stores
    \<open>now\<close> as the timestamp and then calls \<^verbatim>\<open>Update\<close> on the store that
    already carries it, and the timestamp is \<open>now\<close> afterwards whatever
    \<^verbatim>\<open>Update\<close> returns;
  \<^item> if less than \<open>minInterval\<close> has passed, the handler does nothing and the
    store, which has no place for a pending event, is as before.

  For every run of the goroutine: each call of \<^verbatim>\<open>Update\<close> comes right after
  the write of the timestamp; every scheduled reload is more than
  \<open>minInterval\<close> after the one before it (by \<^verbatim>\<open>Time.Sub\<close>), the first one
  more than \<open>minInterval\<close> after the timestamp at the start; and at the end the
  timestamp is the time of the last scheduled reload.
\<close>

theorem debounce:
  fixes minInterval :: "64 word"
  shows
  "(snd (handleEvent minInterval um ev now rf c) \<noteq> [] \<longrightarrow>
        (Has ev Write \<or> Has ev Create) \<and> sint minInterval < now - lastModified c
        \<and> snd (handleEvent minInterval um ev now rf c)
            = [StoreLastModified now, RunUpdate (fst (Update_w rf um (c\<lparr>lastModified := now\<rparr>)))]
        \<and> fst (handleEvent minInterval um ev now rf c) = snd (Update_w rf um (c\<lparr>lastModified := now\<rparr>))
        \<and> lastModified (fst (handleEvent minInterval um ev now rf c)) = now)
   \<and> (now - lastModified c < sint minInterval \<longrightarrow> handleEvent minInterval um ev now rf c = (c, []))
   \<and> (snd (handleEvent minInterval um ev now rf c) = [] \<longrightarrow> fst (handleEvent minInterval um ev now rf c) = c)
   \<and> inOrder (snd (watcherGoroutine minInterval um added turns c))
   \<and> spaced (sint minInterval) (lastModified c)
        (reloadTimes (snd (watcherGoroutine minInterval um added turns c)))
   \<and> lastModified (fst (watcherGoroutine minInterval um added turns c))
        = last (lastModified c # reloadTimes (snd (watcherGoroutine minInterval um added turns c)))"
proof -
  let ?R = "(Has ev Write \<or> Has ev Create) \<and> sint minInterval < Sub now (lastModified c)"
  have a: "snd (handleEvent minInterval um ev now rf c) \<noteq> [] \<longrightarrow>
        (Has ev Write \<or> Has ev Create) \<and> sint minInterval < now - lastModified c
        \<and> snd (handleEvent minInterval um ev now rf c)
            = [StoreLastModified now, RunUpdate (fst (Update_w rf um (c\<lparr>lastModified := now\<rparr>)))]
        \<and> fst (handleEvent minInterval um ev now rf c) = snd (Update_w rf um (c\<lparr>lastModified := now\<rparr>))
        \<and> lastModified (fst (handleEvent minInterval um ev now rf c)) = now"
  proof (cases ?R)
    case True
    then show ?thesis
      by (simp add: handleEvent_reload [OF True] Update_w_lastModified Sub_gt)
  next
    case False
    then show ?thesis by (simp add: handleEvent_drop [OF False])
  qed
  have b: "now - lastModified c < sint minInterval \<longrightarrow> handleEvent minInterval um ev now rf c = (c, [])"
  proof
    assume "now - lastModified c < sint minInterval"
    then have "\<not> ?R" using Sub_le by blast
    then show "handleEvent minInterval um ev now rf c = (c, [])" by (rule handleEvent_drop)
  qed
  have c: "snd (handleEvent minInterval um ev now rf c) = [] \<longrightarrow> fst (handleEvent minInterval um ev now rf c) = c"
  proof (cases ?R)
    case True
    then show ?thesis by (simp add: handleEvent_reload [OF True])
  next
    case False
    then show ?thesis by (simp add: handleEvent_drop [OF False])
  qed
  have d: "inOrder (snd (watcherGoroutine minInterval um added turns c))
   \<and> spaced (sint minInterval) (lastModified c)
        (reloadTimes (snd (watcherGoroutine minInterval um added turns c)))
   \<and> lastModified (fst (watcherGoroutine minInterval um added turns c))
        = last (lastModified c # reloadTimes (snd (watcherGoroutine minInterval um added turns c)))"
    using watchLoop_spaced [of minInterval c um turns]
    by (cases added) (simp_all add: watcherGoroutine_def)
  from a b c d show ?thesis by blast
qed

lemma watchedStore_lastModified: "lastModified watchedStore = 0"
  by (simp add: watchedStore_def StartWatcher_def newConfig_w_def)

lemma burst_reloadTimes:
  "reloadTimes (snd (watcherGoroutine 1000000000 (\<lambda>d. Inr zeroYamlConfig_w) None burst watchedStore))
     = [1500000000, 2500000001]"
  by (simp add: burst_def watcherGoroutine_def handleEvent_def Has_def changeEvent_def Sub_def
        maxDuration_def minDuration_def Update_w_def unreadable_def Let_def
        watchedStore_lastModified)

lemma second_event_effects:
  "snd (handleEvent 1000000000 (\<lambda>d. Inr zeroYamlConfig_w) (changeEvent Create) 1500000000
          unreadable watchedStore)
     = [StoreLastModified 1500000000, RunUpdate (Some (OsError ''no such file''))]"
  by (simp add: handleEvent_def Has_def changeEvent_def Sub_def
        maxDuration_def minDuration_def Update_w_def unreadable_def Let_def
        watchedStore_lastModified)

text \<open>
  With a minimum interval of one second and a file last modified at time 0:
  an event at 0.2 s is dropped, one at 1.5 s schedules a reload, one at 1.6 s
  is dropped, a \<^verbatim>\<open>chmod\<close> is ignored and an event just over a second after
  the reload schedules the next one.
\<close>

theorem debounce_witness:
  "handleEvent 1000000000 (\<lambda>d. Inr zeroYamlConfig_w) (changeEvent Write) 200000000
      unreadable watchedStore = (watchedStore, [])
   \<and> snd (handleEvent 1000000000 (\<lambda>d. Inr zeroYamlConfig_w) (changeEvent Create) 1500000000
          unreadable watchedStore)
        = [StoreLastModified 1500000000, RunUpdate (Some (OsError ''no such file''))]
   \<and> lastModified (fst (handleEvent 1000000000 (\<lambda>d. Inr zeroYamlConfig_w) (changeEvent Create)
          1500000000 unreadable watchedStore)) = 1500000000
   \<and> reloadTimes (snd (watcherGoroutine 1000000000 (\<lambda>d. Inr zeroYamlConfig_w) None burst watchedStore))
        = [1500000000, 2500000001]
   \<and> spaced 1000000000 0 [1500000000, 2500000001]
   \<and> lastModified (fst (watcherGoroutine 1000000000 (\<lambda>d. Inr zeroYamlConfig_w) None burst watchedStore))
        = 2500000001"
proof -
  let ?um = "\<lambda>d :: string. (Inr zeroYamlConfig_w :: error + yamlConfig_w)"
  note first = debounce [of 1000000000 ?um "changeEvent Write" 200000000 unreadable watchedStore
      None burst]
  note second = debounce [of 1000000000 ?um "changeEvent Create" 1500000000 unreadable watchedStore
      None burst]
  have dropped: "handleEvent 1000000000 ?um (changeEvent Write) 200000000 unreadable watchedStore
      = (watchedStore, [])"
    using first by (simp add: watchedStore_lastModified)
  have stamped: "lastModified (fst (handleEvent 1000000000 ?um (changeEvent Create)
          1500000000 unreadable watchedStore)) = 1500000000"
    using second by (auto simp: second_event_effects)
  have whole: "spaced 1000000000 0 [1500000000, 2500000001]
     \<and> lastModified (fst (watcherGoroutine 1000000000 ?um None burst watchedStore)) = 2500000001"
    using first by (simp add: burst_reloadTimes watchedStore_lastModified)
  from dropped stamped whole second_event_effects burst_reloadTimes show ?thesis by blast
qed

section \<open>What the accessors share with the store\<close>

lemma snapshot_nextAddr: "snapshot (g\<lparr>nextAddr := n\<rparr>) c = snapshot g c"
  by (auto simp: snapshot_def elems_def fun_eq_iff split: option.splits)

lemma snapshot_writeBackend_fresh:
  assumes "allocated h c" and "nextAddr h \<le> p"
  shows "snapshot (writeBackend p b h') c = snapshot h' c"
proof -
  have "\<And>slug q. backendsRef c slug = Some q \<Longrightarrow> q \<noteq> p"
    using assms by (force simp: allocated_def ran_def)
  then show ?thesis
    by (auto simp: snapshot_def writeBackend_def elems_def fun_eq_iff split: option.splits)
qed

lemma snapshot_writeSlice_fresh:
  assumes "allocated h c" and "nextAddr h \<le> p"
  shows "snapshot (writeSlice p xs h') c = snapshot h' c"
proof -
  have a: "\<And>u q. userSubscribesRef c u = Some q \<Longrightarrow> q \<noteq> p"
    using assms by (force simp: allocated_def ran_def)
  have b: "\<And>q. sslAcmeDomainsRef c = Some q \<Longrightarrow> q \<noteq> p"
    using assms by (force simp: allocated_def)
  from a b show ?thesis
    by (auto simp: snapshot_def writeSlice_def elems_def fun_eq_iff split: option.splits)
qed

lemma snapshot_writeMap_fresh:
  assumes "allocated h c" and "nextAddr h \<le> p"
  shows "snapshot (writeMap p m h') c = snapshot h' c"
proof -
  have "\<And>u q. userParamsRef c u = Some q \<Longrightarrow> q \<noteq> p"
    using assms by (force simp: allocated_def ran_def)
  then show ?thesis
    by (auto simp: snapshot_def writeMap_def elems_def fun_eq_iff split: option.splits)
qed

lemma snapshot_alloc:
  assumes "allocated h c"
  shows "snapshot (snd (newBackend b h)) c = snapshot h c"
    and "snapshot (snd (newSlice xs h)) c = snapshot h c"
    and "snapshot (snd (newMap m h)) c = snapshot h c"
proof -
  have "snd (newBackend b h) = (writeBackend (nextAddr h) b h)\<lparr>nextAddr := Suc (nextAddr h)\<rparr>"
    by (simp add: newBackend_def writeBackend_def)
  then show "snapshot (snd (newBackend b h)) c = snapshot h c"
    using snapshot_writeBackend_fresh [OF assms, of "nextAddr h" b h]
    by (simp add: snapshot_nextAddr)
  have "snd (newSlice xs h) = (writeSlice (nextAddr h) xs h)\<lparr>nextAddr := Suc (nextAddr h)\<rparr>"
    by (simp add: newSlice_def writeSlice_def)
  then show "snapshot (snd (newSlice xs h)) c = snapshot h c"
    using snapshot_writeSlice_fresh [OF assms, of "nextAddr h" xs h]
    by (simp add: snapshot_nextAddr)
  have "snd (newMap m h) = (writeMap (nextAddr h) m h)\<lparr>nextAddr := Suc (nextAddr h)\<rparr>"
    by (simp add: newMap_def writeMap_def)
  then show "snapshot (snd (newMap m h)) c = snapshot h c"
    using snapshot_writeMap_fresh [OF assms, of "nextAddr h" m h]
    by (simp add: snapshot_nextAddr)
qed

text \<open>
  The accessors that copy: whatever a caller writes through the reference it
  was handed, the store holds what it held before the call.
\<close>

lemma GetBackendBySlug_copy:
  assumes "allocated h c" and "GetBackendBySlug h c backendID = (Returned (Some p) err, h')"
  shows "snapshot (writeBackend p b h') c = snapshot h c
         \<and> backendCells h' p = fst (snapshot h c) backendID"
proof -
  from assms(2) obtain q v where q: "backendsRef c backendID = Some q" "backendCells h q = Some v"
    and p: "p = nextAddr h" and h': "h' = snd (newBackend v h)"
    by (auto simp: GetBackendBySlug_def newBackend_def split: option.splits)
  have "snapshot (writeBackend p b h') c = snapshot h' c"
    using snapshot_writeBackend_fresh [OF assms(1), of p b h'] p by simp
  moreover have "snapshot h' c = snapshot h c" using snapshot_alloc(1) [OF assms(1)] h' by simp
  moreover have "backendCells h' p = fst (snapshot h c) backendID"
    using q p h' by (simp add: snapshot_def newBackend_def)
  ultimately show ?thesis by simp
qed

lemma GetUserSubscribes_copy:
  assumes "allocated h c" and "GetUserSubscribes h c userID = (Returned p err, h')"
  shows "snapshot (writeSlice p xs h') c = snapshot h c"
proof -
  from assms(2) obtain ys where p: "p = nextAddr h" and h': "h' = snd (newSlice ys h)"
    by (auto simp: GetUserSubscribes_def newSlice_def split: option.splits)
  have "snapshot (writeSlice p xs h') c = snapshot h' c"
    using snapshot_writeSlice_fresh [OF assms(1), of p xs h'] p by simp
  moreover have "snapshot h' c = snapshot h c" using snapshot_alloc(2) [OF assms(1)] h' by simp
  ultimately show ?thesis by simp
qed

lemma SSLAcmeDomains_copy:
  assumes "allocated h c" and "SSLAcmeDomains h c = (Returned p err, h')"
  shows "snapshot (writeSlice p xs h') c = snapshot h c"
proof -
  from assms(2) obtain ys where p: "p = nextAddr h" and h': "h' = snd (newSlice ys h)"
    by (auto simp: SSLAcmeDomains_def newSlice_def)
  have "snapshot (writeSlice p xs h') c = snapshot h' c"
    using snapshot_writeSlice_fresh [OF assms(1), of p xs h'] p by simp
  moreover have "snapshot h' c = snapshot h c" using snapshot_alloc(2) [OF assms(1)] h' by simp
  ultimately show ?thesis by simp
qed

lemma GetUserParams_copy:
  assumes "allocated h c" and "GetUserParams h c userID = (Returned p err, h')"
  shows "snapshot (writeMap p m h') c = snapshot h c"
proof -
  from assms(2) obtain m0 where p: "p = nextAddr h" and h': "h' = snd (newMap m0 h)"
    by (auto simp: GetUserParams_def newMap_def split: option.splits)
  have "snapshot (writeMap p m h') c = snapshot h' c"
    using snapshot_writeMap_fresh [OF assms(1), of p m h'] p by simp
  moreover have "snapshot h' c = snapshot h c" using snapshot_alloc(3) [OF assms(1)] h' by simp
  ultimately show ?thesis by simp
qed

lemma oneBackend_allocated: "allocated oneBackendHeap oneBackendStore"
  by (simp add: allocated_def oneBackendHeap_def oneBackendStore_def)

text \<open>
  Claim C6 (defensive copies) at \<^verbatim>\<open>GetBackend\<close> of the watcher variant: the
  accessor returns the address the store itself holds, so a caller that
  assigns through the returned pointer changes the backend the store resolves
  the slug to. \<^verbatim>\<open>GetBackendBySlug\<close> of yaml.go, \<^verbatim>\<open>GetUserSubscribes\<close>,
  \<^verbatim>\<open>GetUserParams\<close> and \<^verbatim>\<open>SSLAcmeDomains\<close> copy (the four lemmas above).
\<close>

theorem GetBackend_hands_out_the_live_backend:
  "GetBackend oneBackendHeap oneBackendStore ''b'' = (Returned (Some 0) None, oneBackendHeap)
   \<and> fst (snapshot oneBackendHeap oneBackendStore) ''b''
        = Some \<lparr>URL = ''http://upstream'', Bearer = ''secret''\<rparr>
   \<and> fst (snapshot (writeBackend 0 \<lparr>URL = ''http://elsewhere'', Bearer = ''''\<rparr> oneBackendHeap)
             oneBackendStore) ''b''
        = Some \<lparr>URL = ''http://elsewhere'', Bearer = ''''\<rparr>
   \<and> snapshot (writeBackend 0 \<lparr>URL = ''http://elsewhere'', Bearer = ''''\<rparr> oneBackendHeap)
        oneBackendStore \<noteq> snapshot oneBackendHeap oneBackendStore"
proof -
  have g: "GetBackend oneBackendHeap oneBackendStore ''b'' = (Returned (Some 0) None, oneBackendHeap)"
    by (simp add: GetBackend_def oneBackendStore_def)
  have s0: "fst (snapshot oneBackendHeap oneBackendStore) ''b''
        = Some \<lparr>URL = ''http://upstream'', Bearer = ''secret''\<rparr>"
    by (simp add: snapshot_def oneBackendHeap_def oneBackendStore_def)
  have s1: "fst (snapshot (writeBackend 0 \<lparr>URL = ''http://elsewhere'', Bearer = ''''\<rparr> oneBackendHeap)
             oneBackendStore) ''b''
        = Some \<lparr>URL = ''http://elsewhere'', Bearer = ''''\<rparr>"
    by (simp add: snapshot_def writeBackend_def oneBackendHeap_def oneBackendStore_def)
  have "snapshot (writeBackend 0 \<lparr>URL = ''http://elsewhere'', Bearer = ''''\<rparr> oneBackendHeap)
        oneBackendStore \<noteq> snapshot oneBackendHeap oneBackendStore"
  proof
    assume "snapshot (writeBackend 0 \<lparr>URL = ''http://elsewhere'', Bearer = ''''\<rparr> oneBackendHeap)
        oneBackendStore = snapshot oneBackendHeap oneBackendStore"
    with s0 s1 show False by simp
  qed
  with g s0 s1 show ?thesis by blast
qed

section \<open>Tasks\<close>

lemma perform_terminal:
  "tasks b tid = Some t \<Longrightarrow> terminal (task_state t) \<Longrightarrow> tasks (perform r b) tid = Some t"
  by (cases r)
     (auto simp: submit_def transition_def addArtifact_def CancelTask_def
           split: option.splits)

lemma run_terminal:
  "tasks b tid = Some t \<Longrightarrow> terminal (task_state t) \<Longrightarrow> tasks (run rs b) tid = Some t"
proof (induction rs arbitrary: b)
  case Nil
  then show ?case by simp
next
  case (Cons r rs)
  from Cons.prems have "tasks (perform r b) tid = Some t" by (rule perform_terminal)
  with Cons.IH Cons.prems(2) show ?case by simp
qed

text \<open>
  Claim C7 (terminal finality). For a task that is terminal, no transition is
  accepted (the backend is as before the attempt), and after any run of
  submissions, transitions, artifacts, queries and cancellations, on this or
  any other task id, \<^verbatim>\<open>GetTask\<close> reports the task as it was: the same
  terminal state.
\<close>

theorem terminal_finality:
  assumes "tasks b tid = Some t" and "terminal (task_state t)"
  shows "transition tid s b = b
         \<and> GetTask tid (run rs b) = Inr t
         \<and> (\<forall>t'. GetTask tid (run rs b) = Inr t' \<longrightarrow> task_state t' = task_state t)"
proof -
  have "transition tid s b = b" using assms by (simp add: transition_def)
  moreover have "GetTask tid (run rs b) = Inr t"
    using run_terminal [OF assms] by (simp add: GetTask_def)
  ultimately show ?thesis by simp
qed

lemma oneTaskBackend_T1:
  "tasks oneTaskBackend ''T1'' = Some completedTask \<and> terminal (task_state completedTask)"
  by (simp add: oneTaskBackend_def completedTask_def terminal_def)

theorem terminal_finality_witness:
  "transition ''T1'' Working oneTaskBackend = oneTaskBackend
   \<and> GetTask ''T1''
        (run [Transition ''T1'' Working, Cancel ''T1'', Submit ''T1'' None,
              AddArtifact ''T1'' ''late.py'', Submit ''T2'' None, Get ''T1'', Transition ''T1'' Failed]
           oneTaskBackend)
       = Inr completedTask
   \<and> task_state completedTask = Completed"
proof -
  note held = oneTaskBackend_T1 [THEN conjunct1] and ended = oneTaskBackend_T1 [THEN conjunct2]
  note final = terminal_finality
    [of oneTaskBackend "''T1''" completedTask Working
        "[Transition ''T1'' Working, Cancel ''T1'', Submit ''T1'' None,
          AddArtifact ''T1'' ''late.py'', Submit ''T2'' None, Get ''T1'', Transition ''T1'' Failed]",
     OF held ended]
  have "task_state completedTask = Completed" by (simp add: completedTask_def)
  with final show ?thesis by blast
qed

text \<open>
  Claim C8 (cancel after terminal). For a task that is terminal, whatever
  has happened at the backend since, \<^verbatim>\<open>CancelTask\<close> returns
  \<^verbatim>\<open>NotCancelableError\<close>; it changes nothing at the backend, and a
  \<^verbatim>\<open>GetTask\<close> after it reports the task in its terminal state.
\<close>

theorem cancel_after_terminal:
  assumes "tasks b tid = Some t" and "terminal (task_state t)"
  shows "fst (CancelTask tid (run rs b)) = Inl NotCancelableError
         \<and> snd (CancelTask tid (run rs b)) = run rs b
         \<and> GetTask tid (snd (CancelTask tid (run rs b))) = Inr t"
proof -
  have "tasks (run rs b) tid = Some t" using run_terminal [OF assms] .
  then show ?thesis using assms(2) by (simp add: CancelTask_def GetTask_def)
qed

theorem cancel_after_terminal_witness:
  "fst (CancelTask ''T1'' (run [Get ''T1'', Cancel ''T1''] oneTaskBackend)) = Inl NotCancelableError
   \<and> GetTask ''T1'' (snd (CancelTask ''T1'' (run [Get ''T1'', Cancel ''T1''] oneTaskBackend)))
       = Inr completedTask"
proof -
  note held = oneTaskBackend_T1 [THEN conjunct1] and ended = oneTaskBackend_T1 [THEN conjunct2]
  from cancel_after_terminal
         [of oneTaskBackend "''T1''" completedTask "[Get ''T1'', Cancel ''T1'']", OF held ended]
  show ?thesis by blast
qed

section \<open>Subscriptions\<close>

text \<open>
  Claim C9, as the claim states it, fails: a subscription whose transport
  breaks before the backend sent its final event delivers no event with
  \<^verbatim>\<open>final=true\<close> and ends with the error value; and a subscription the
  caller cancels, whose producer ceases at once, delivers none either.
\<close>

theorem exactly_one_final_counterexample:
  "SendTaskSubscribe 0
      [Frame (StatusUpdate Working None False), Frame (ArtifactUpdate ''a.py'' 0), Broken]
     = [Deliver (StatusUpdate Working None False), Deliver (ArtifactUpdate ''a.py'' 0),
        StreamError TransportError]
   \<and> length (filter finalDelivered
        (SendTaskSubscribe 0 [Frame (StatusUpdate Working None False),
                              Frame (ArtifactUpdate ''a.py'' 0), Broken])) \<noteq> 1
   \<and> SendTaskSubscribe 0
      [Frame (StatusUpdate Working None False), Cancelled, Frame (StatusUpdate Completed None True)]
     = [Deliver (StatusUpdate Working None False)]
   \<and> length (filter finalDelivered
        (SendTaskSubscribe 0 [Frame (StatusUpdate Working None False), Cancelled,
                              Frame (StatusUpdate Completed None True)])) \<noteq> 1"
  by simp

lemma stragglers_one_final:
  "length (filter finalDelivered (stragglers race fs)) \<le> 1"
  by (induction race fs rule: stragglers.induct) auto

lemma stragglers_final_is_last:
  "i < length (stragglers race fs) \<Longrightarrow> finalDelivered (stragglers race fs ! i)
     \<Longrightarrow> Suc i = length (stragglers race fs)"
proof (induction race fs arbitrary: i rule: stragglers.induct)
  case (3 race e rest)
  then show ?case by (cases i) (auto split: if_splits)
qed auto

lemma one_final:
  "length (filter finalDelivered (SendTaskSubscribe race fs)) \<le> 1"
proof (induction race fs rule: SendTaskSubscribe.induct)
  case (4 race rest)
  show ?case using stragglers_one_final [of race rest] by simp
qed auto

lemma final_is_last:
  "i < length (SendTaskSubscribe race fs) \<Longrightarrow> finalDelivered (SendTaskSubscribe race fs ! i)
     \<Longrightarrow> Suc i = length (SendTaskSubscribe race fs)"
proof (induction race fs arbitrary: i rule: SendTaskSubscribe.induct)
  case (2 race e rest)
  then show ?case by (cases i) (auto split: if_splits)
next
  case (4 race rest)
  then show ?case by (simp add: stragglers_final_is_last)
qed auto

lemma final_when_reached:
  "reachesFinal fs \<Longrightarrow>
     length (filter finalDelivered (SendTaskSubscribe race fs)) = 1
     \<and> SendTaskSubscribe race fs \<noteq> [] \<and> finalDelivered (last (SendTaskSubscribe race fs))"
  by (induction race fs rule: SendTaskSubscribe.induct) auto

text \<open>
  Claim C9, amended (the final event of a subscription). Whatever the
  transport hands over and however long the producer races after a
  cancellation, a subscription delivers at most one event with
  \<^verbatim>\<open>final=true\<close>, and one that is delivered is the last thing delivered. It
  delivers exactly one when the backend emits its final event before the
  transport fails or the caller cancels.
\<close>

theorem subscription_final_event:
  "length (filter finalDelivered (SendTaskSubscribe race fs)) \<le> 1
   \<and> (\<forall>i < length (SendTaskSubscribe race fs).
        finalDelivered (SendTaskSubscribe race fs ! i)
          \<longrightarrow> Suc i = length (SendTaskSubscribe race fs))
   \<and> (reachesFinal fs \<longrightarrow>
        length (filter finalDelivered (SendTaskSubscribe race fs)) = 1
        \<and> SendTaskSubscribe race fs \<noteq> []
        \<and> finalDelivered (last (SendTaskSubscribe race fs)))"
  using one_final [of race fs] final_when_reached [of fs race] final_is_last [of _ race fs]
  by blast

text \<open>
  A stream that ends with the backend's final event, the frame after it never
  delivered; and a cancelled stream whose producer races for two more frames
  and so still delivers the final event, as a straggler and as the last item.
\<close>

theorem subscription_final_event_witness:
  "reachesFinal [Frame (StatusUpdate Working None False), Frame (ArtifactUpdate ''a.py'' 0),
                 Frame (StatusUpdate Completed None True), Frame (ArtifactUpdate ''late.py'' 1)]
   \<and> SendTaskSubscribe 0
        [Frame (StatusUpdate Working None False), Frame (ArtifactUpdate ''a.py'' 0),
         Frame (StatusUpdate Completed None True), Frame (ArtifactUpdate ''late.py'' 1)]
       = [Deliver (StatusUpdate Working None False), Deliver (ArtifactUpdate ''a.py'' 0),
          Deliver (StatusUpdate Completed None True)]
   \<and> length (filter finalDelivered (SendTaskSubscribe 0
        [Frame (StatusUpdate Working None False), Frame (ArtifactUpdate ''a.py'' 0),
         Frame (StatusUpdate Completed None True), Frame (ArtifactUpdate ''late.py'' 1)])) = 1
   \<and> finalDelivered (last (SendTaskSubscribe 0
        [Frame (StatusUpdate Working None False), Frame (ArtifactUpdate ''a.py'' 0),
         Frame (StatusUpdate Completed None True), Frame (ArtifactUpdate ''late.py'' 1)]))
   \<and> SendTaskSubscribe 2
        [Frame (StatusUpdate Working None False), Cancelled, Frame (ArtifactUpdate ''a.py'' 0),
         Frame (StatusUpdate Completed None True), Frame (ArtifactUpdate ''late.py'' 1)]
       = [Deliver (StatusUpdate Working None False), Deliver (ArtifactUpdate ''a.py'' 0),
          Deliver (StatusUpdate Completed None True)]
   \<and> length (filter finalDelivered (SendTaskSubscribe 2
        [Frame (StatusUpdate Working None False), Cancelled, Frame (ArtifactUpdate ''a.py'' 0),
         Frame (StatusUpdate Completed None True), Frame (ArtifactUpdate ''late.py'' 1)])) \<le> 1"
proof -
  let ?fs = "[Frame (StatusUpdate Working None False), Frame (ArtifactUpdate ''a.py'' 0),
              Frame (StatusUpdate Completed None True), Frame (ArtifactUpdate ''late.py'' 1)]"
  let ?gs = "[Frame (StatusUpdate Working None False), Cancelled, Frame (ArtifactUpdate ''a.py'' 0),
              Frame (StatusUpdate Completed None True), Frame (ArtifactUpdate ''late.py'' 1)]"
  have reached: "reachesFinal ?fs" by simp
  have normal: "SendTaskSubscribe 0 ?fs
       = [Deliver (StatusUpdate Working None False), Deliver (ArtifactUpdate ''a.py'' 0),
          Deliver (StatusUpdate Completed None True)]"
    by simp
  have raced: "SendTaskSubscribe 2 ?gs
       = [Deliver (StatusUpdate Working None False), Deliver (ArtifactUpdate ''a.py'' 0),
          Deliver (StatusUpdate Completed None True)]"
    by code_simp
  from subscription_final_event [of 0 ?fs] reached
  have one: "length (filter finalDelivered (SendTaskSubscribe 0 ?fs)) = 1
     \<and> finalDelivered (last (SendTaskSubscribe 0 ?fs))"
    by blast
  from subscription_final_event [of 2 ?gs]
  have most: "length (filter finalDelivered (SendTaskSubscribe 2 ?gs)) \<le> 1"
    by blast
  from reached normal raced one most show ?thesis by blast
qed

end
